theory Spec2Isabelle
  imports Main "HOL-Library.Word"
begin

section \<open>AudioStreamBuilder: stream acquisition with MMAP / Legacy fallback\<close>

text \<open>
  Shallow embedding of \<^verbatim>\<open>media/libaaudio/src/core/AudioStreamBuilder.cpp\<close>.
  The C typedefs \<^verbatim>\<open>aaudio_result_t\<close>, \<^verbatim>\<open>aaudio_policy_t\<close>, ... are all
  \<^verbatim>\<open>int32_t\<close>, so a value outside the named constants is possible and the
  \<^verbatim>\<open>default:\<close> branches of the source are reachable.
\<close>

subsection \<open>Types and constants of the public headers\<close>

type_synonym int32_t = "32 word"
type_synonym aaudio_result_t = int32_t
type_synonym aaudio_policy_t = int32_t
type_synonym aaudio_direction_t = int32_t
type_synonym aaudio_sharing_mode_t = int32_t
type_synonym aaudio_performance_mode_t = int32_t
type_synonym aaudio_session_id_t = int32_t
type_synonym aaudio_input_preset_t = int32_t
type_synonym privacy_sensitive_t = int32_t
type_synonym status_t = int32_t
type_synonym AudioMMapPolicy = int32_t \<comment> \<open>an AIDL enum backed by \<^verbatim>\<open>int32_t\<close>\<close>

text \<open>
  The numeric values below are those of \<^verbatim>\<open>aaudio/AAudio.h\<close>,
  \<^verbatim>\<open>aaudio/AAudioTesting.h\<close>, \<^verbatim>\<open>core/AudioStreamBuilder.h\<close>,
  \<^verbatim>\<open>utils/Errors.h\<close> and the AIDL enum \<^verbatim>\<open>AudioMMapPolicy\<close>; the source
  file only uses the names.
\<close>

definition AAUDIO_OK :: aaudio_result_t where "AAUDIO_OK = 0"
definition AAUDIO_ERROR_ILLEGAL_ARGUMENT :: aaudio_result_t where "AAUDIO_ERROR_ILLEGAL_ARGUMENT = - 898"
definition AAUDIO_ERROR_UNAVAILABLE :: aaudio_result_t where "AAUDIO_ERROR_UNAVAILABLE = - 889"
definition AAUDIO_ERROR_NULL :: aaudio_result_t where "AAUDIO_ERROR_NULL = - 886"
definition AAUDIO_ERROR_OUT_OF_RANGE :: aaudio_result_t where "AAUDIO_ERROR_OUT_OF_RANGE = - 882"

definition AAUDIO_UNSPECIFIED :: int32_t where "AAUDIO_UNSPECIFIED = 0"

definition AAUDIO_POLICY_NEVER :: aaudio_policy_t where "AAUDIO_POLICY_NEVER = 1"
definition AAUDIO_POLICY_AUTO :: aaudio_policy_t where "AAUDIO_POLICY_AUTO = 2"
definition AAUDIO_POLICY_ALWAYS :: aaudio_policy_t where "AAUDIO_POLICY_ALWAYS = 3"

definition AAUDIO_DIRECTION_OUTPUT :: aaudio_direction_t where "AAUDIO_DIRECTION_OUTPUT = 0"
definition AAUDIO_DIRECTION_INPUT :: aaudio_direction_t where "AAUDIO_DIRECTION_INPUT = 1"

definition AAUDIO_SHARING_MODE_EXCLUSIVE :: aaudio_sharing_mode_t where "AAUDIO_SHARING_MODE_EXCLUSIVE = 0"
definition AAUDIO_SHARING_MODE_SHARED :: aaudio_sharing_mode_t where "AAUDIO_SHARING_MODE_SHARED = 1"

definition AAUDIO_PERFORMANCE_MODE_NONE :: aaudio_performance_mode_t where "AAUDIO_PERFORMANCE_MODE_NONE = 10"
definition AAUDIO_PERFORMANCE_MODE_POWER_SAVING :: aaudio_performance_mode_t where "AAUDIO_PERFORMANCE_MODE_POWER_SAVING = 11"
definition AAUDIO_PERFORMANCE_MODE_LOW_LATENCY :: aaudio_performance_mode_t where "AAUDIO_PERFORMANCE_MODE_LOW_LATENCY = 12"

definition AAUDIO_SESSION_ID_NONE :: aaudio_session_id_t where "AAUDIO_SESSION_ID_NONE = - 1"

definition AAUDIO_INPUT_PRESET_CAMCORDER :: aaudio_input_preset_t where "AAUDIO_INPUT_PRESET_CAMCORDER = 5"
definition AAUDIO_INPUT_PRESET_VOICE_COMMUNICATION :: aaudio_input_preset_t where "AAUDIO_INPUT_PRESET_VOICE_COMMUNICATION = 7"

definition PRIVACY_SENSITIVE_DEFAULT :: privacy_sensitive_t where "PRIVACY_SENSITIVE_DEFAULT = 0"
definition PRIVACY_SENSITIVE_DISABLED :: privacy_sensitive_t where "PRIVACY_SENSITIVE_DISABLED = 1"
definition PRIVACY_SENSITIVE_ENABLED :: privacy_sensitive_t where "PRIVACY_SENSITIVE_ENABLED = 2"

definition NO_ERROR :: status_t where "NO_ERROR = 0"

definition AudioMMapPolicy_UNSPECIFIED :: AudioMMapPolicy where "AudioMMapPolicy_UNSPECIFIED = 0"
definition AudioMMapPolicy_NEVER :: AudioMMapPolicy where "AudioMMapPolicy_NEVER = 1"
definition AudioMMapPolicy_AUTO :: AudioMMapPolicy where "AudioMMapPolicy_AUTO = 2"
definition AudioMMapPolicy_ALWAYS :: AudioMMapPolicy where "AudioMMapPolicy_ALWAYS = 3"

definition FRAMES_PER_DATA_CALLBACK_MIN :: int where "FRAMES_PER_DATA_CALLBACK_MIN = 1"
definition FRAMES_PER_DATA_CALLBACK_MAX :: int where "FRAMES_PER_DATA_CALLBACK_MAX = 1024 * 1024"

definition AAUDIO_MMAP_POLICY_DEFAULT :: aaudio_policy_t where
  "AAUDIO_MMAP_POLICY_DEFAULT = AAUDIO_POLICY_NEVER"
definition AAUDIO_MMAP_EXCLUSIVE_POLICY_DEFAULT :: aaudio_policy_t where
  "AAUDIO_MMAP_EXCLUSIVE_POLICY_DEFAULT = AAUDIO_POLICY_NEVER"

subsection \<open>Data\<close>

text \<open>
  The AIDL parcelable; its field \<^verbatim>\<open>mmapPolicy\<close> is the only one the builder
  reads (named \<open>info_mmapPolicy\<close> here, the plain name being that of the local
  variable of \<^verbatim>\<open>build\<close>).
\<close>

record AudioMMapPolicyInfo =
  info_mmapPolicy :: AudioMMapPolicy

datatype AudioMMapPolicyType = DEFAULT | EXCLUSIVE

text \<open>The four concrete stream classes that \<^verbatim>\<open>builder_createStream\<close> instantiates.\<close>

datatype AudioStream =
    AudioStreamInternalCapture
  | AudioStreamRecord
  | AudioStreamInternalPlay
  | AudioStreamTrack

text \<open>
  The fields of \<^verbatim>\<open>AudioStreamBuilder\<close> (and of its base
  \<^verbatim>\<open>AAudioStreamParameters\<close>) that \<^verbatim>\<open>build\<close> and \<^verbatim>\<open>validate\<close>
  read or write. The remaining transport parameters live in the record's extension.
\<close>

record AudioStreamBuilder =
  mDirection :: aaudio_direction_t
  mSharingMode :: aaudio_sharing_mode_t
  mPerformanceMode :: aaudio_performance_mode_t
  mSessionId :: aaudio_session_id_t
  mInputPreset :: aaudio_input_preset_t
  mIsPrivacySensitive :: bool
  mPrivacySensitiveReq :: privacy_sensitive_t
  mFramesPerDataCallback :: int32_t

text \<open>
  The collaborators \<^verbatim>\<open>build\<close> calls into: the process-wide override
  \<^verbatim>\<open>AudioGlobal_getMMapPolicy()\<close>, the policy provider
  \<^verbatim>\<open>AudioSystem::getMmapPolicyInfo(type, &policyInfos)\<close> (status and the list it
  fills in), the base-class check \<^verbatim>\<open>AAudioStreamParameters::validate()\<close>, and
  \<^verbatim>\<open>AudioStream::open(builder)\<close> of the created stream object. Each is called at
  most once per argument in one \<^verbatim>\<open>build\<close>, so a function describes it.
\<close>

record environment =
  AudioGlobal_getMMapPolicy :: aaudio_policy_t
  getMmapPolicyInfo :: "AudioMMapPolicyType \<Rightarrow> status_t \<times> AudioMMapPolicyInfo list"
  AAudioStreamParameters_validate :: "AudioStreamBuilder \<Rightarrow> aaudio_result_t"
  stream_open :: "AudioStream \<Rightarrow> AudioStreamBuilder \<Rightarrow> aaudio_result_t"

text \<open>Calls made on stream objects, in program order.\<close>

datatype stream_call =
    is_Create: Create AudioStream
  | is_Open: Open AudioStream aaudio_result_t
  | is_RegisterPlayerBase: RegisterPlayerBase AudioStream
  | is_LogOpenActual: LogOpenActual AudioStream

text \<open>
  What the caller observes after \<^verbatim>\<open>build\<close>: the returned code, the content of
  \<^verbatim>\<open>*streamPtr\<close> (\<open>None\<close> when \<^verbatim>\<open>streamPtr\<close> itself is null,
  \<open>Some None\<close> when the slot holds \<^verbatim>\<open>nullptr\<close>), the builder as mutated,
  and the calls made on stream objects.
\<close>

record build_outcome =
  out_result :: aaudio_result_t
  out_stream :: "AudioStream option option"
  out_builder :: AudioStreamBuilder
  out_calls :: "stream_call list"

subsection \<open>Stream factory\<close>

text \<open>
  \<^verbatim>\<open>builder_createStream\<close>: \<open>Inr\<close> is \<^verbatim>\<open>AAUDIO_OK\<close> with the out-parameter
  \<^verbatim>\<open>stream\<close> set, \<open>Inl\<close> the error code with \<^verbatim>\<open>stream\<close> untouched.
\<close>

definition builder_createStream ::
  "aaudio_direction_t \<Rightarrow> aaudio_sharing_mode_t \<Rightarrow> bool \<Rightarrow> aaudio_result_t + AudioStream" where
  "builder_createStream direction sharingMode tryMMap =
     (if direction = AAUDIO_DIRECTION_INPUT then
        (if tryMMap then Inr AudioStreamInternalCapture else Inr AudioStreamRecord)
      else if direction = AAUDIO_DIRECTION_OUTPUT then
        (if tryMMap then Inr AudioStreamInternalPlay else Inr AudioStreamTrack)
      else Inl AAUDIO_ERROR_ILLEGAL_ARGUMENT)"

text \<open>
  Modelled from the spec: \<^verbatim>\<open>AudioStream::isMMap()\<close> is declared in
  \<^verbatim>\<open>core/AudioStream.h\<close> and overridden in \<^verbatim>\<open>client/AudioStreamInternal.h\<close>,
  neither of which is part of this file. The spec calls it \<^verbatim>\<open>isFastPath()\<close>: true
  exactly for the two direct-memory-mapped variants.
\<close>

fun isMMap :: "AudioStream \<Rightarrow> bool" where
  "isMMap AudioStreamInternalCapture = True"
| "isMMap AudioStreamInternalPlay = True"
| "isMMap AudioStreamRecord = False"
| "isMMap AudioStreamTrack = False"

subsection \<open>Policy reduction\<close>

definition aidl2legacy_aaudio_policy :: "AudioMMapPolicy \<Rightarrow> aaudio_policy_t" where
  "aidl2legacy_aaudio_policy aidl =
     (if aidl = AudioMMapPolicy_NEVER then AAUDIO_POLICY_NEVER
      else if aidl = AudioMMapPolicy_AUTO then AAUDIO_POLICY_AUTO
      else if aidl = AudioMMapPolicy_ALWAYS then AAUDIO_POLICY_ALWAYS
      else AAUDIO_UNSPECIFIED)"

text \<open>The \<^verbatim>\<open>for\<close> loop of \<^verbatim>\<open>getAAudioPolicy\<close>, entered with \<open>i = 1\<close>.\<close>

function getAAudioPolicy_loop :: "AudioMMapPolicyInfo list \<Rightarrow> nat \<Rightarrow> aaudio_policy_t" where
  "getAAudioPolicy_loop policyInfos i =
     (if i < length policyInfos then
        (if info_mmapPolicy (policyInfos ! i) \<noteq> info_mmapPolicy (policyInfos ! 0)
         then AAUDIO_POLICY_AUTO
         else getAAudioPolicy_loop policyInfos (Suc i))
      else aidl2legacy_aaudio_policy (info_mmapPolicy (policyInfos ! 0)))"
  by pat_completeness auto
termination
  by (relation "measure (\<lambda>(policyInfos, i). length policyInfos - i)") auto

definition getAAudioPolicy :: "AudioMMapPolicyInfo list \<Rightarrow> aaudio_policy_t" where
  "getAAudioPolicy policyInfos =
     (if policyInfos = [] then AAUDIO_POLICY_AUTO
      else getAAudioPolicy_loop policyInfos 1)"

subsection \<open>Parameter pre-check\<close>

definition validate :: "environment \<Rightarrow> AudioStreamBuilder \<Rightarrow> aaudio_result_t" where
  "validate env b =
     (let result = AAudioStreamParameters_validate env b in
      if result \<noteq> AAUDIO_OK then result
      else if mPerformanceMode b \<noteq> AAUDIO_PERFORMANCE_MODE_NONE
            \<and> mPerformanceMode b \<noteq> AAUDIO_PERFORMANCE_MODE_POWER_SAVING
            \<and> mPerformanceMode b \<noteq> AAUDIO_PERFORMANCE_MODE_LOW_LATENCY
        then AAUDIO_ERROR_ILLEGAL_ARGUMENT
      else if mFramesPerDataCallback b \<noteq> AAUDIO_UNSPECIFIED
            \<and> (sint (mFramesPerDataCallback b) < FRAMES_PER_DATA_CALLBACK_MIN
                \<or> sint (mFramesPerDataCallback b) > FRAMES_PER_DATA_CALLBACK_MAX)
        then AAUDIO_ERROR_OUT_OF_RANGE
      else AAUDIO_OK)"

subsection \<open>The steps of \<^verbatim>\<open>build\<close>\<close>

text \<open>
  Lines 147-158: the general MMAP policy. The provider is only asked when the API
  setting is unspecified (\<^verbatim>\<open>&&\<close> short-circuits).
\<close>

definition resolveMMapPolicy :: "environment \<Rightarrow> aaudio_policy_t" where
  "resolveMMapPolicy env =
     (let mmapPolicy = AudioGlobal_getMMapPolicy env;
          mmapPolicy =
            (if mmapPolicy = AAUDIO_UNSPECIFIED
                \<and> fst (getMmapPolicyInfo env DEFAULT) = NO_ERROR
             then getAAudioPolicy (snd (getMmapPolicyInfo env DEFAULT))
             else mmapPolicy)
      in if mmapPolicy = AAUDIO_UNSPECIFIED then AAUDIO_MMAP_POLICY_DEFAULT else mmapPolicy)"

text \<open>Lines 160-168: the exclusive MMAP policy, which starts from \<^verbatim>\<open>AAUDIO_UNSPECIFIED\<close>.\<close>

definition resolveMMapExclusivePolicy :: "environment \<Rightarrow> aaudio_policy_t" where
  "resolveMMapExclusivePolicy env =
     (let mmapExclusivePolicy = AAUDIO_UNSPECIFIED;
          mmapExclusivePolicy =
            (if fst (getMmapPolicyInfo env EXCLUSIVE) = NO_ERROR
             then getAAudioPolicy (snd (getMmapPolicyInfo env EXCLUSIVE))
             else mmapExclusivePolicy)
      in if mmapExclusivePolicy = AAUDIO_UNSPECIFIED
         then AAUDIO_MMAP_EXCLUSIVE_POLICY_DEFAULT else mmapExclusivePolicy)"

text \<open>
  Lines 170-176: the local \<^verbatim>\<open>sharingMode\<close> and the builder after
  \<^verbatim>\<open>setSharingMode\<close>.
\<close>

definition correctSharingMode ::
  "aaudio_policy_t \<Rightarrow> AudioStreamBuilder \<Rightarrow> aaudio_sharing_mode_t \<times> AudioStreamBuilder" where
  "correctSharingMode mmapExclusivePolicy b =
     (let sharingMode = mSharingMode b in
      if sharingMode = AAUDIO_SHARING_MODE_EXCLUSIVE
         \<and> mmapExclusivePolicy = AAUDIO_POLICY_NEVER
      then (AAUDIO_SHARING_MODE_SHARED, b\<lparr>mSharingMode := AAUDIO_SHARING_MODE_SHARED\<rparr>)
      else (sharingMode, b))"

text \<open>Lines 178-193: the two path flags after the performance-mode and session-id gates.\<close>

definition decide_allowMMap :: "aaudio_policy_t \<Rightarrow> AudioStreamBuilder \<Rightarrow> bool" where
  "decide_allowMMap mmapPolicy b =
     (let allowMMap = (mmapPolicy \<noteq> AAUDIO_POLICY_NEVER);
          allowMMap =
            (if mPerformanceMode b \<noteq> AAUDIO_PERFORMANCE_MODE_LOW_LATENCY
             then False else allowMMap);
          allowMMap =
            (if mSessionId b \<noteq> AAUDIO_SESSION_ID_NONE then False else allowMMap)
      in allowMMap)"

definition decide_allowLegacy :: "aaudio_policy_t \<Rightarrow> bool" where
  "decide_allowLegacy mmapPolicy = (mmapPolicy \<noteq> AAUDIO_POLICY_ALWAYS)"

text \<open>Lines 200-211: the privacy-sensitive flag.\<close>

definition inferPrivacySensitive :: "AudioStreamBuilder \<Rightarrow> AudioStreamBuilder" where
  "inferPrivacySensitive b0 =
     (let b = b0\<lparr>mIsPrivacySensitive := False\<rparr> in
      if mPrivacySensitiveReq b = PRIVACY_SENSITIVE_DEFAULT then
        (let preset = mInputPreset b in
         if preset = AAUDIO_INPUT_PRESET_CAMCORDER
            \<or> preset = AAUDIO_INPUT_PRESET_VOICE_COMMUNICATION
         then b\<lparr>mIsPrivacySensitive := True\<rparr>
         else b)
      else if mPrivacySensitiveReq b = PRIVACY_SENSITIVE_ENABLED
        then b\<lparr>mIsPrivacySensitive := True\<rparr>
      else b)"

text \<open>
  Lines 213-235: create, open, and the single fallback to the Legacy stream. The result
  is the code, the stream handed to \<^verbatim>\<open>startUsingStream\<close> (if any) and the calls
  made. \<^verbatim>\<open>open\<close> takes the builder by const reference.
\<close>

definition createAndOpen ::
  "environment \<Rightarrow> AudioStreamBuilder \<Rightarrow> aaudio_sharing_mode_t \<Rightarrow> bool \<Rightarrow> bool
     \<Rightarrow> aaudio_result_t \<times> AudioStream option \<times> stream_call list" where
  "createAndOpen env b sharingMode allowMMap allowLegacy =
     (case builder_createStream (mDirection b) sharingMode allowMMap of
        Inl result \<Rightarrow> (result, None, [])
      | Inr audioStream \<Rightarrow>
          (let result = stream_open env audioStream b;
               calls = [Create audioStream, Open audioStream result];
               (result, audioStream, calls) =
                 (if result \<noteq> AAUDIO_OK then
                    (if isMMap audioStream \<and> allowLegacy then
                       (case builder_createStream (mDirection b) sharingMode False of
                          Inl result \<Rightarrow> (result, audioStream, calls)
                        | Inr audioStream \<Rightarrow>
                            (let result = stream_open env audioStream b
                             in (result, audioStream,
                                 calls @ [Create audioStream, Open audioStream result])))
                     else (result, audioStream, calls))
                  else (result, audioStream, calls))
           in if result = AAUDIO_OK
              then (result, Some audioStream,
                    calls @ [RegisterPlayerBase audioStream, LogOpenActual audioStream])
              else (result, None, calls)))"

subsection \<open>\<^verbatim>\<open>AudioStreamBuilder::build\<close>\<close>

text \<open>
  \<open>streamPtr\<close> is \<open>None\<close> for a null pointer and \<open>Some v\<close> for a pointer to a
  slot that holds \<open>v\<close>. \<^verbatim>\<open>logParameters\<close> only writes to the log and is left
  out; \<^verbatim>\<open>startUsingStream\<close> takes a reference for the caller and returns the raw
  pointer, which is the stream stored in the slot.
\<close>

definition build ::
  "environment \<Rightarrow> AudioStreamBuilder \<Rightarrow> AudioStream option option \<Rightarrow> build_outcome" where
  "build env b streamPtr =
     (if streamPtr = None then
        \<lparr>out_result = AAUDIO_ERROR_NULL, out_stream = None, out_builder = b, out_calls = []\<rparr>
      else
        (let result = validate env b in
         if result \<noteq> AAUDIO_OK then
           \<lparr>out_result = result, out_stream = Some None, out_builder = b, out_calls = []\<rparr>
         else
           (let mmapPolicy = resolveMMapPolicy env;
                mmapExclusivePolicy = resolveMMapExclusivePolicy env;
                (sharingMode, b) = correctSharingMode mmapExclusivePolicy b;
                allowMMap = decide_allowMMap mmapPolicy b;
                allowLegacy = decide_allowLegacy mmapPolicy
            in if \<not> allowMMap \<and> \<not> allowLegacy then
                 \<lparr>out_result = AAUDIO_ERROR_ILLEGAL_ARGUMENT, out_stream = Some None,
                  out_builder = b, out_calls = []\<rparr>
               else
                 (let b = inferPrivacySensitive b;
                      (result, stream, calls) =
                        createAndOpen env b sharingMode allowMMap allowLegacy
                  in \<lparr>out_result = result, out_stream = Some stream,
                      out_builder = b, out_calls = calls\<rparr>))))"

text \<open>
  The path condition of line 200: the pointer is not null, the pre-check passed and at
  least one of the two paths is allowed.
\<close>

definition reachesPrivacyStep ::
  "environment \<Rightarrow> AudioStreamBuilder \<Rightarrow> AudioStream option option \<Rightarrow> bool" where
  "reachesPrivacyStep env b streamPtr =
     (streamPtr \<noteq> None \<and> validate env b = AAUDIO_OK
      \<and> (decide_allowMMap (resolveMMapPolicy env)
            (snd (correctSharingMode (resolveMMapExclusivePolicy env) b))
          \<or> decide_allowLegacy (resolveMMapPolicy env)))"

subsection \<open>The resolution rule in the words of the specification\<close>

text \<open>
  \<^verbatim>\<open>resolvePolicy(explicitOverride, policyInfoProvider, axis)\<close> as section 4.2 of
  the specification words it: the first value that is not "unspecified" among the
  explicit override, the reduction of the list fetched for the axis (a failed query
  counting as "unspecified"), and the default "never". It is compared with
  \<open>resolveMMapPolicy\<close> and \<open>resolveMMapExclusivePolicy\<close> below.
\<close>

definition spec_resolvePolicy ::
  "aaudio_policy_t \<Rightarrow> (AudioMMapPolicyType \<Rightarrow> status_t \<times> AudioMMapPolicyInfo list)
     \<Rightarrow> AudioMMapPolicyType \<Rightarrow> aaudio_policy_t" where
  "spec_resolvePolicy explicitOverride policyInfoProvider axis =
     (if explicitOverride \<noteq> AAUDIO_UNSPECIFIED then explicitOverride
      else
        (let fetched =
           (if fst (policyInfoProvider axis) = NO_ERROR
            then getAAudioPolicy (snd (policyInfoProvider axis))
            else AAUDIO_UNSPECIFIED)
         in if fetched \<noteq> AAUDIO_UNSPECIFIED then fetched else AAUDIO_POLICY_NEVER))"

subsection \<open>Concrete requests and environments\<close>

text \<open>
  A low-latency playback request in exclusive mode, with the voice-communication preset
  and no privacy request.
\<close>

definition example_builder :: AudioStreamBuilder where
  "example_builder =
     \<lparr>mDirection = AAUDIO_DIRECTION_OUTPUT,
      mSharingMode = AAUDIO_SHARING_MODE_EXCLUSIVE,
      mPerformanceMode = AAUDIO_PERFORMANCE_MODE_LOW_LATENCY,
      mSessionId = AAUDIO_SESSION_ID_NONE,
      mInputPreset = AAUDIO_INPUT_PRESET_VOICE_COMMUNICATION,
      mIsPrivacySensitive = False,
      mPrivacySensitiveReq = PRIVACY_SENSITIVE_DEFAULT,
      mFramesPerDataCallback = AAUDIO_UNSPECIFIED\<rparr>"

text \<open>
  A provider that reports AUTO for the general axis and NEVER for the exclusive axis.
\<close>

fun example_provider :: "AudioMMapPolicyType \<Rightarrow> status_t \<times> AudioMMapPolicyInfo list" where
  "example_provider DEFAULT = (NO_ERROR, [\<lparr>info_mmapPolicy = AudioMMapPolicy_AUTO\<rparr>])"
| "example_provider EXCLUSIVE = (NO_ERROR, [\<lparr>info_mmapPolicy = AudioMMapPolicy_NEVER\<rparr>])"

definition accept_parameters :: "AudioStreamBuilder \<Rightarrow> aaudio_result_t" where
  "accept_parameters b = AAUDIO_OK"

text \<open>A base-class check that rejects the parameters.\<close>

definition reject_parameters :: "AudioStreamBuilder \<Rightarrow> aaudio_result_t" where
  "reject_parameters b = AAUDIO_ERROR_OUT_OF_RANGE"

text \<open>MMAP streams fail to open, Legacy streams open.\<close>

definition open_legacy_only :: "AudioStream \<Rightarrow> AudioStreamBuilder \<Rightarrow> aaudio_result_t" where
  "open_legacy_only s b = (if isMMap s then AAUDIO_ERROR_UNAVAILABLE else AAUDIO_OK)"

definition open_never :: "AudioStream \<Rightarrow> AudioStreamBuilder \<Rightarrow> aaudio_result_t" where
  "open_never s b = AAUDIO_ERROR_UNAVAILABLE"

definition example_environment :: environment where
  "example_environment =
     \<lparr>AudioGlobal_getMMapPolicy = AAUDIO_UNSPECIFIED,
      getMmapPolicyInfo = example_provider,
      AAudioStreamParameters_validate = accept_parameters,
      stream_open = open_legacy_only\<rparr>"

lemmas example_defs =
  example_builder_def example_environment_def accept_parameters_def
  open_legacy_only_def open_never_def

subsection \<open>Simplification set-up\<close>

lemmas aaudio_consts =
  AAUDIO_OK_def AAUDIO_ERROR_ILLEGAL_ARGUMENT_def AAUDIO_ERROR_NULL_def
  AAUDIO_ERROR_UNAVAILABLE_def
  AAUDIO_ERROR_OUT_OF_RANGE_def AAUDIO_UNSPECIFIED_def
  AAUDIO_POLICY_NEVER_def AAUDIO_POLICY_AUTO_def AAUDIO_POLICY_ALWAYS_def
  AAUDIO_DIRECTION_OUTPUT_def AAUDIO_DIRECTION_INPUT_def
  AAUDIO_SHARING_MODE_EXCLUSIVE_def AAUDIO_SHARING_MODE_SHARED_def
  AAUDIO_PERFORMANCE_MODE_NONE_def AAUDIO_PERFORMANCE_MODE_POWER_SAVING_def
  AAUDIO_PERFORMANCE_MODE_LOW_LATENCY_def AAUDIO_SESSION_ID_NONE_def
  AAUDIO_INPUT_PRESET_CAMCORDER_def AAUDIO_INPUT_PRESET_VOICE_COMMUNICATION_def
  PRIVACY_SENSITIVE_DEFAULT_def PRIVACY_SENSITIVE_DISABLED_def PRIVACY_SENSITIVE_ENABLED_def
  NO_ERROR_def AudioMMapPolicy_UNSPECIFIED_def AudioMMapPolicy_NEVER_def
  AudioMMapPolicy_AUTO_def AudioMMapPolicy_ALWAYS_def
  FRAMES_PER_DATA_CALLBACK_MIN_def FRAMES_PER_DATA_CALLBACK_MAX_def
  AAUDIO_MMAP_POLICY_DEFAULT_def AAUDIO_MMAP_EXCLUSIVE_POLICY_DEFAULT_def

declare getAAudioPolicy_loop.simps [simp del]

lemmas step_defs =
  resolveMMapPolicy_def resolveMMapExclusivePolicy_def correctSharingMode_def
  decide_allowMMap_def decide_allowLegacy_def inferPrivacySensitive_def
  builder_createStream_def

lemmas eval_defs =
  build_def validate_def createAndOpen_def step_defs example_defs aaudio_consts
  getAAudioPolicy_def getAAudioPolicy_loop.simps aidl2legacy_aaudio_policy_def

section \<open>Properties\<close>

subsection \<open>The reduction loop\<close>

lemma getAAudioPolicy_loop_agree:
  "\<forall>p\<in>set policyInfos. info_mmapPolicy p = d \<Longrightarrow> policyInfos \<noteq> [] \<Longrightarrow>
   getAAudioPolicy_loop policyInfos i = aidl2legacy_aaudio_policy d"
proof (induction policyInfos i rule: getAAudioPolicy_loop.induct)
  case (1 policyInfos i)
  then have first: "info_mmapPolicy (policyInfos ! 0) = d"
    by (cases policyInfos) auto
  show ?case
  proof (cases "i < length policyInfos")
    case True
    then have "info_mmapPolicy (policyInfos ! i) = d"
      using 1(2) by simp
    with True first 1 show ?thesis
      by (subst getAAudioPolicy_loop.simps) simp
  next
    case False
    with first show ?thesis
      by (subst getAAudioPolicy_loop.simps) simp
  qed
qed

lemma getAAudioPolicy_loop_differ:
  "i \<le> j \<Longrightarrow> j < length policyInfos \<Longrightarrow>
   info_mmapPolicy (policyInfos ! j) \<noteq> info_mmapPolicy (policyInfos ! 0) \<Longrightarrow>
   getAAudioPolicy_loop policyInfos i = AAUDIO_POLICY_AUTO"
proof (induction policyInfos i rule: getAAudioPolicy_loop.induct)
  case (1 policyInfos i)
  show ?case
  proof (cases "info_mmapPolicy (policyInfos ! i) \<noteq> info_mmapPolicy (policyInfos ! 0)")
    case True
    with 1(2,3) show ?thesis
      by (subst getAAudioPolicy_loop.simps) simp
  next
    case False
    with 1(2,4) have "i \<noteq> j" by auto
    with 1(2) have "Suc i \<le> j" by simp
    with 1 False show ?thesis
      by (subst getAAudioPolicy_loop.simps) simp
  qed
qed

lemma differs_from_first:
  assumes "p \<in> set policyInfos" and "q \<in> set policyInfos"
      and "info_mmapPolicy p \<noteq> info_mmapPolicy q"
  shows "\<exists>j. 1 \<le> j \<and> j < length policyInfos \<and>
             info_mmapPolicy (policyInfos ! j) \<noteq> info_mmapPolicy (policyInfos ! 0)"
proof -
  from assms obtain m n where m: "m < length policyInfos" "policyInfos ! m = p"
    and n: "n < length policyInfos" "policyInfos ! n = q"
    by (auto simp: in_set_conv_nth)
  show ?thesis
  proof (cases "info_mmapPolicy p = info_mmapPolicy (policyInfos ! 0)")
    case True
    with assms(3) n
    have *: "info_mmapPolicy (policyInfos ! n) \<noteq> info_mmapPolicy (policyInfos ! 0)"
      by simp
    then have "n \<noteq> 0" by (cases n) auto
    with * n show ?thesis by (intro exI [of _ n]) simp
  next
    case False
    with m
    have *: "info_mmapPolicy (policyInfos ! m) \<noteq> info_mmapPolicy (policyInfos ! 0)"
      by simp
    then have "m \<noteq> 0" by (cases m) auto
    with * m show ?thesis by (intro exI [of _ m]) simp
  qed
qed

text \<open>
  C5. \<^verbatim>\<open>getAAudioPolicy\<close> is a function of the list alone. The empty list reduces to
  AUTO; a non-empty list whose entries all carry the disposition \<open>d\<close> reduces to
  \<open>d\<close> converted by \<^verbatim>\<open>aidl2legacy_aaudio_policy\<close>, which maps NEVER, AUTO, ALWAYS and
  UNSPECIFIED to the policy of the same name; a list with two entries that differ
  reduces to AUTO.
\<close>

theorem getAAudioPolicy_reduction:
  "getAAudioPolicy [] = AAUDIO_POLICY_AUTO
   \<and> (policyInfos \<noteq> [] \<and> (\<forall>p\<in>set policyInfos. info_mmapPolicy p = d)
        \<longrightarrow> getAAudioPolicy policyInfos = aidl2legacy_aaudio_policy d)
   \<and> ((\<exists>p\<in>set policyInfos. \<exists>q\<in>set policyInfos. info_mmapPolicy p \<noteq> info_mmapPolicy q)
        \<longrightarrow> getAAudioPolicy policyInfos = AAUDIO_POLICY_AUTO)
   \<and> aidl2legacy_aaudio_policy AudioMMapPolicy_NEVER = AAUDIO_POLICY_NEVER
   \<and> aidl2legacy_aaudio_policy AudioMMapPolicy_AUTO = AAUDIO_POLICY_AUTO
   \<and> aidl2legacy_aaudio_policy AudioMMapPolicy_ALWAYS = AAUDIO_POLICY_ALWAYS
   \<and> aidl2legacy_aaudio_policy AudioMMapPolicy_UNSPECIFIED = AAUDIO_UNSPECIFIED"
proof (intro conjI impI)
  show "getAAudioPolicy [] = AAUDIO_POLICY_AUTO"
    by (simp add: getAAudioPolicy_def)
next
  assume "policyInfos \<noteq> [] \<and> (\<forall>p\<in>set policyInfos. info_mmapPolicy p = d)"
  then show "getAAudioPolicy policyInfos = aidl2legacy_aaudio_policy d"
    by (simp add: getAAudioPolicy_def getAAudioPolicy_loop_agree)
next
  assume "\<exists>p\<in>set policyInfos. \<exists>q\<in>set policyInfos. info_mmapPolicy p \<noteq> info_mmapPolicy q"
  then obtain p q where "p \<in> set policyInfos" "q \<in> set policyInfos"
    "info_mmapPolicy p \<noteq> info_mmapPolicy q" by blast
  from differs_from_first [OF this] obtain j where
    "1 \<le> j" "j < length policyInfos"
    "info_mmapPolicy (policyInfos ! j) \<noteq> info_mmapPolicy (policyInfos ! 0)" by blast
  then show "getAAudioPolicy policyInfos = AAUDIO_POLICY_AUTO"
    by (auto simp: getAAudioPolicy_def getAAudioPolicy_loop_differ)
qed (simp_all add: aidl2legacy_aaudio_policy_def aaudio_consts)

text \<open>
  The theorem at the list [never, never, always] of the specification (mixed, hence
  AUTO) and at [always, always] (agreeing, hence ALWAYS).
\<close>

theorem getAAudioPolicy_reduction_witness:
  "getAAudioPolicy
     [\<lparr>info_mmapPolicy = AudioMMapPolicy_NEVER\<rparr>, \<lparr>info_mmapPolicy = AudioMMapPolicy_NEVER\<rparr>,
      \<lparr>info_mmapPolicy = AudioMMapPolicy_ALWAYS\<rparr>] = AAUDIO_POLICY_AUTO
   \<and> getAAudioPolicy
       [\<lparr>info_mmapPolicy = AudioMMapPolicy_ALWAYS\<rparr>, \<lparr>info_mmapPolicy = AudioMMapPolicy_ALWAYS\<rparr>]
     = AAUDIO_POLICY_ALWAYS"
proof -
  let ?mixed = "[\<lparr>info_mmapPolicy = AudioMMapPolicy_NEVER\<rparr>,
                 \<lparr>info_mmapPolicy = AudioMMapPolicy_NEVER\<rparr>,
                 \<lparr>info_mmapPolicy = AudioMMapPolicy_ALWAYS\<rparr>]"
  let ?agree = "[\<lparr>info_mmapPolicy = AudioMMapPolicy_ALWAYS\<rparr>,
                 \<lparr>info_mmapPolicy = AudioMMapPolicy_ALWAYS\<rparr>]"
  have "AudioMMapPolicy_NEVER \<noteq> AudioMMapPolicy_ALWAYS"
    by (simp add: aaudio_consts)
  then have mixed: "\<exists>p\<in>set ?mixed. \<exists>q\<in>set ?mixed. info_mmapPolicy p \<noteq> info_mmapPolicy q"
    by auto
  have agree: "?agree \<noteq> [] \<and> (\<forall>p\<in>set ?agree. info_mmapPolicy p = AudioMMapPolicy_ALWAYS)"
    by simp
  from mixed getAAudioPolicy_reduction [of ?mixed AudioMMapPolicy_NEVER]
  have "getAAudioPolicy ?mixed = AAUDIO_POLICY_AUTO" by blast
  moreover from agree getAAudioPolicy_reduction [of ?agree AudioMMapPolicy_ALWAYS]
  have "getAAudioPolicy ?agree = AAUDIO_POLICY_ALWAYS" by simp
  ultimately show ?thesis by blast
qed

subsection \<open>The paths through \<^verbatim>\<open>build\<close>\<close>

lemma decide_allowMMap_correctSharingMode:
  "decide_allowMMap p (snd (correctSharingMode e b)) = decide_allowMMap p b"
  by (simp add: decide_allowMMap_def correctSharingMode_def Let_def)

lemma build_null: "out_calls (build env b None) = [] \<and> out_builder (build env b None) = b
   \<and> out_result (build env b None) = AAUDIO_ERROR_NULL \<and> out_stream (build env b None) = None"
  by (simp add: build_def)

lemma build_invalid:
  "streamPtr \<noteq> None \<Longrightarrow> validate env b \<noteq> AAUDIO_OK \<Longrightarrow>
   build env b streamPtr =
     \<lparr>out_result = validate env b, out_stream = Some None, out_builder = b, out_calls = []\<rparr>"
  by (simp add: build_def Let_def)

lemma build_no_backend:
  "streamPtr \<noteq> None \<Longrightarrow> validate env b = AAUDIO_OK \<Longrightarrow>
   \<not> decide_allowMMap (resolveMMapPolicy env) b \<Longrightarrow> \<not> decide_allowLegacy (resolveMMapPolicy env) \<Longrightarrow>
   build env b streamPtr =
     \<lparr>out_result = AAUDIO_ERROR_ILLEGAL_ARGUMENT, out_stream = Some None,
      out_builder = snd (correctSharingMode (resolveMMapExclusivePolicy env) b), out_calls = []\<rparr>"
  using decide_allowMMap_correctSharingMode [of "resolveMMapPolicy env" "resolveMMapExclusivePolicy env" b]
  by (simp add: build_def Let_def case_prod_beta)

lemma build_proceeds:
  "streamPtr \<noteq> None \<Longrightarrow> validate env b = AAUDIO_OK \<Longrightarrow>
   decide_allowMMap (resolveMMapPolicy env) b \<or> decide_allowLegacy (resolveMMapPolicy env) \<Longrightarrow>
   build env b streamPtr =
     (let b' = inferPrivacySensitive (snd (correctSharingMode (resolveMMapExclusivePolicy env) b));
          r = createAndOpen env b' (fst (correctSharingMode (resolveMMapExclusivePolicy env) b))
                (decide_allowMMap (resolveMMapPolicy env) b) (decide_allowLegacy (resolveMMapPolicy env))
      in \<lparr>out_result = fst r, out_stream = Some (fst (snd r)), out_builder = b', out_calls = snd (snd r)\<rparr>)"
  using decide_allowMMap_correctSharingMode [of "resolveMMapPolicy env" "resolveMMapExclusivePolicy env" b]
  by (auto simp add: build_def Let_def case_prod_beta)

lemma mDirection_steps:
  "mDirection (inferPrivacySensitive b) = mDirection b"
  "mDirection (snd (correctSharingMode e b)) = mDirection b"
  by (simp_all add: inferPrivacySensitive_def correctSharingMode_def Let_def)

lemma reachesPrivacyStep_iff:
  "reachesPrivacyStep env b streamPtr \<longleftrightarrow>
     streamPtr \<noteq> None \<and> validate env b = AAUDIO_OK
     \<and> (decide_allowMMap (resolveMMapPolicy env) b \<or> decide_allowLegacy (resolveMMapPolicy env))"
  by (simp add: reachesPrivacyStep_def decide_allowMMap_correctSharingMode)

lemma build_reaches:
  assumes "reachesPrivacyStep env b streamPtr"
  shows "out_builder (build env b streamPtr) =
           inferPrivacySensitive (snd (correctSharingMode (resolveMMapExclusivePolicy env) b))"
proof -
  from assms have "streamPtr \<noteq> None" "validate env b = AAUDIO_OK"
    "decide_allowMMap (resolveMMapPolicy env) b \<or> decide_allowLegacy (resolveMMapPolicy env)"
    by (simp_all add: reachesPrivacyStep_iff)
  from build_proceeds [OF this] show ?thesis by (simp add: Let_def)
qed

lemma build_calls_reaches:
  assumes "out_calls (build env b streamPtr) \<noteq> []"
  shows "reachesPrivacyStep env b streamPtr"
proof -
  have ptr: "streamPtr \<noteq> None"
  proof
    assume "streamPtr = None"
    with assms build_null [of env b] show False by simp
  qed
  have valid: "validate env b = AAUDIO_OK"
  proof (rule ccontr)
    assume "validate env b \<noteq> AAUDIO_OK"
    from build_invalid [OF ptr this] assms show False by simp
  qed
  have "decide_allowMMap (resolveMMapPolicy env) b \<or> decide_allowLegacy (resolveMMapPolicy env)"
  proof (rule ccontr)
    assume "\<not> (decide_allowMMap (resolveMMapPolicy env) b \<or> decide_allowLegacy (resolveMMapPolicy env))"
    then have "\<not> decide_allowMMap (resolveMMapPolicy env) b"
      and "\<not> decide_allowLegacy (resolveMMapPolicy env)" by simp_all
    from build_no_backend [OF ptr valid this] assms show False by simp
  qed
  with ptr valid show ?thesis by (simp add: reachesPrivacyStep_iff)
qed

lemma inferPrivacySensitive_flag:
  "mIsPrivacySensitive (inferPrivacySensitive b) =
     (if mPrivacySensitiveReq b = PRIVACY_SENSITIVE_DEFAULT
      then mInputPreset b = AAUDIO_INPUT_PRESET_CAMCORDER
           \<or> mInputPreset b = AAUDIO_INPUT_PRESET_VOICE_COMMUNICATION
      else mPrivacySensitiveReq b = PRIVACY_SENSITIVE_ENABLED)"
  by (simp add: inferPrivacySensitive_def Let_def)

lemma inferPrivacySensitive_other_fields:
  "mSharingMode (inferPrivacySensitive b) = mSharingMode b"
  by (simp add: inferPrivacySensitive_def Let_def)

lemma correctSharingMode_other_fields:
  "mPrivacySensitiveReq (snd (correctSharingMode e b)) = mPrivacySensitiveReq b"
  "mInputPreset (snd (correctSharingMode e b)) = mInputPreset b"
  "mIsPrivacySensitive (snd (correctSharingMode e b)) = mIsPrivacySensitive b"
  by (simp_all add: correctSharingMode_def Let_def)

subsection \<open>Create, open, fall back once\<close>

lemma createAndOpen_fallback:
  assumes "take 2 (snd (snd (createAndOpen env b sm am al))) = [Create s, Open s r]"
      and "r \<noteq> AAUDIO_OK"
  shows "(isMMap s \<and> al \<longrightarrow>
           (\<exists>s' r'. \<not> isMMap s' \<and>
              createAndOpen env b sm am al =
                (r', if r' = AAUDIO_OK then Some s' else None,
                 [Create s, Open s r, Create s', Open s' r']
                   @ (if r' = AAUDIO_OK then [RegisterPlayerBase s', LogOpenActual s'] else []))))
       \<and> (\<not> isMMap s \<or> \<not> al \<longrightarrow>
            createAndOpen env b sm am al = (r, None, [Create s, Open s r]))"
  using assms
  by (auto simp add: createAndOpen_def builder_createStream_def Let_def split: if_splits)

lemma createAndOpen_no_mmap:
  "Create s \<in> set (snd (snd (createAndOpen env b sm False al))) \<Longrightarrow> \<not> isMMap s"
  by (auto simp add: createAndOpen_def builder_createStream_def Let_def split: if_splits)

lemma createAndOpen_bad_direction:
  "mDirection b \<noteq> AAUDIO_DIRECTION_INPUT \<Longrightarrow> mDirection b \<noteq> AAUDIO_DIRECTION_OUTPUT \<Longrightarrow>
   createAndOpen env b sm am al = (AAUDIO_ERROR_ILLEGAL_ARGUMENT, None, [])"
  by (simp add: createAndOpen_def builder_createStream_def)

text \<open>
  C1. Take any build whose first two stream calls are the creation of a stream \<open>s\<close>
  and an open of \<open>s\<close> that fails with \<open>r\<close>. If \<open>s\<close> is an MMAP stream and
  the Legacy path is allowed, the calls continue with exactly one creation of a Legacy
  stream \<open>s'\<close> and one open of it, and nothing else but the two notifications of a
  successful open: two opens in all. The result is that of the second open, and when it
  is \<^verbatim>\<open>AAUDIO_OK\<close> the handle returned is \<open>s'\<close>. If \<open>s\<close> is a Legacy
  stream, or the Legacy path is not allowed, there is no further call: the error \<open>r\<close>
  is returned and the slot holds \<^verbatim>\<open>nullptr\<close>.
\<close>

theorem build_single_fallback:
  assumes first: "take 2 (out_calls (build env b streamPtr)) = [Create s, Open s r]"
      and fails: "r \<noteq> AAUDIO_OK"
  shows "(isMMap s \<and> decide_allowLegacy (resolveMMapPolicy env) \<longrightarrow>
           (\<exists>s' r'. \<not> isMMap s'
              \<and> out_calls (build env b streamPtr) =
                  [Create s, Open s r, Create s', Open s' r']
                    @ (if r' = AAUDIO_OK then [RegisterPlayerBase s', LogOpenActual s'] else [])
              \<and> length (filter is_Open (out_calls (build env b streamPtr))) = 2
              \<and> out_result (build env b streamPtr) = r'
              \<and> (r' = AAUDIO_OK \<longrightarrow> out_stream (build env b streamPtr) = Some (Some s'))))
       \<and> (\<not> isMMap s \<or> \<not> decide_allowLegacy (resolveMMapPolicy env) \<longrightarrow>
            out_calls (build env b streamPtr) = [Create s, Open s r]
            \<and> out_result (build env b streamPtr) = r
            \<and> out_stream (build env b streamPtr) = Some None)"
proof -
  let ?p = "resolveMMapPolicy env"
  let ?c = "correctSharingMode (resolveMMapExclusivePolicy env) b"
  let ?b = "inferPrivacySensitive (snd ?c)"
  let ?r = "createAndOpen env ?b (fst ?c) (decide_allowMMap ?p b) (decide_allowLegacy ?p)"
  from first have "out_calls (build env b streamPtr) \<noteq> []" by auto
  then have "reachesPrivacyStep env b streamPtr" by (rule build_calls_reaches)
  then have ptr: "streamPtr \<noteq> None" and valid: "validate env b = AAUDIO_OK"
    and allowed: "decide_allowMMap ?p b \<or> decide_allowLegacy ?p"
    by (simp_all add: reachesPrivacyStep_iff)
  have out: "build env b streamPtr =
      \<lparr>out_result = fst ?r, out_stream = Some (fst (snd ?r)), out_builder = ?b,
       out_calls = snd (snd ?r)\<rparr>"
    using build_proceeds [OF ptr valid allowed] by (simp add: Let_def)
  have first': "take 2 (snd (snd ?r)) = [Create s, Open s r]"
    using first out by simp
  from createAndOpen_fallback [OF first' fails] show ?thesis
    unfolding out by (auto split: if_splits)
qed


text \<open>
  Both cases at concrete builds: the MMAP open fails and the Legacy path is allowed
  (general policy AUTO), and the MMAP open fails with the general policy forced to ALWAYS.
\<close>

theorem build_single_fallback_witness:
  "take 2 (out_calls (build example_environment example_builder (Some None)))
     = [Create AudioStreamInternalPlay, Open AudioStreamInternalPlay AAUDIO_ERROR_UNAVAILABLE]
   \<and> AAUDIO_ERROR_UNAVAILABLE \<noteq> AAUDIO_OK
   \<and> isMMap AudioStreamInternalPlay
   \<and> decide_allowLegacy (resolveMMapPolicy example_environment)
   \<and> (\<exists>s' r'. \<not> isMMap s'
         \<and> out_calls (build example_environment example_builder (Some None)) =
             [Create AudioStreamInternalPlay,
              Open AudioStreamInternalPlay AAUDIO_ERROR_UNAVAILABLE, Create s', Open s' r']
               @ (if r' = AAUDIO_OK then [RegisterPlayerBase s', LogOpenActual s'] else [])
         \<and> length (filter is_Open
              (out_calls (build example_environment example_builder (Some None)))) = 2
         \<and> out_result (build example_environment example_builder (Some None)) = r')
   \<and> take 2 (out_calls (build
         (example_environment\<lparr>AudioGlobal_getMMapPolicy := AAUDIO_POLICY_ALWAYS\<rparr>)
         example_builder (Some None)))
     = [Create AudioStreamInternalPlay, Open AudioStreamInternalPlay AAUDIO_ERROR_UNAVAILABLE]
   \<and> \<not> decide_allowLegacy (resolveMMapPolicy
         (example_environment\<lparr>AudioGlobal_getMMapPolicy := AAUDIO_POLICY_ALWAYS\<rparr>))
   \<and> out_calls (build
         (example_environment\<lparr>AudioGlobal_getMMapPolicy := AAUDIO_POLICY_ALWAYS\<rparr>)
         example_builder (Some None))
     = [Create AudioStreamInternalPlay, Open AudioStreamInternalPlay AAUDIO_ERROR_UNAVAILABLE]
   \<and> out_result (build
         (example_environment\<lparr>AudioGlobal_getMMapPolicy := AAUDIO_POLICY_ALWAYS\<rparr>)
         example_builder (Some None))
     = AAUDIO_ERROR_UNAVAILABLE
   \<and> out_stream (build
         (example_environment\<lparr>AudioGlobal_getMMapPolicy := AAUDIO_POLICY_ALWAYS\<rparr>)
         example_builder (Some None))
     = Some None"
proof -
  let ?env = "example_environment\<lparr>AudioGlobal_getMMapPolicy := AAUDIO_POLICY_ALWAYS\<rparr>"
  have first: "take 2 (out_calls (build example_environment example_builder (Some None)))
     = [Create AudioStreamInternalPlay, Open AudioStreamInternalPlay AAUDIO_ERROR_UNAVAILABLE]"
    by (simp add: eval_defs)
  have first': "take 2 (out_calls (build ?env example_builder (Some None)))
     = [Create AudioStreamInternalPlay, Open AudioStreamInternalPlay AAUDIO_ERROR_UNAVAILABLE]"
    by (simp add: eval_defs)
  have fails: "AAUDIO_ERROR_UNAVAILABLE \<noteq> AAUDIO_OK"
    by (simp add: aaudio_consts)
  have legacy: "decide_allowLegacy (resolveMMapPolicy example_environment)"
    by (simp add: eval_defs)
  have no_legacy: "\<not> decide_allowLegacy (resolveMMapPolicy ?env)"
    by (simp add: eval_defs)
  have mmap: "isMMap AudioStreamInternalPlay" by simp
  from build_single_fallback [OF first fails] mmap legacy
  have retry: "\<exists>s' r'. \<not> isMMap s'
         \<and> out_calls (build example_environment example_builder (Some None)) =
             [Create AudioStreamInternalPlay,
              Open AudioStreamInternalPlay AAUDIO_ERROR_UNAVAILABLE, Create s', Open s' r']
               @ (if r' = AAUDIO_OK then [RegisterPlayerBase s', LogOpenActual s'] else [])
         \<and> length (filter is_Open
              (out_calls (build example_environment example_builder (Some None)))) = 2
         \<and> out_result (build example_environment example_builder (Some None)) = r'"
    by blast
  from build_single_fallback [OF first' fails] no_legacy
  have terminal: "out_calls (build ?env example_builder (Some None))
       = [Create AudioStreamInternalPlay, Open AudioStreamInternalPlay AAUDIO_ERROR_UNAVAILABLE]
     \<and> out_result (build ?env example_builder (Some None)) = AAUDIO_ERROR_UNAVAILABLE
     \<and> out_stream (build ?env example_builder (Some None)) = Some None"
    by blast
  from first first' fails legacy no_legacy mmap retry terminal show ?thesis
    by blast
qed

subsection \<open>Policy resolution\<close>

text \<open>
  C2, as the code has it. The general axis follows the precedence of the specification
  with the process-level override \<^verbatim>\<open>AudioGlobal_getMMapPolicy()\<close>. The exclusive
  axis follows the same rule with no override at all (it starts from "unspecified"):
  provider reduction, a failed query counting as "unspecified", then the default NEVER.
  The process-level override has no influence on the exclusive axis.
\<close>

theorem resolve_policy_precedence:
  "resolveMMapPolicy env =
     spec_resolvePolicy (AudioGlobal_getMMapPolicy env) (getMmapPolicyInfo env) DEFAULT
   \<and> resolveMMapExclusivePolicy env =
     spec_resolvePolicy AAUDIO_UNSPECIFIED (getMmapPolicyInfo env) EXCLUSIVE
   \<and> resolveMMapExclusivePolicy (env\<lparr>AudioGlobal_getMMapPolicy := override\<rparr>) =
     resolveMMapExclusivePolicy env"
  by (simp add: resolveMMapPolicy_def resolveMMapExclusivePolicy_def spec_resolvePolicy_def
      Let_def aaudio_consts)

theorem resolve_policy_precedence_witness:
  "resolveMMapPolicy (example_environment\<lparr>AudioGlobal_getMMapPolicy := AAUDIO_POLICY_ALWAYS\<rparr>)
     = AAUDIO_POLICY_ALWAYS
   \<and> resolveMMapPolicy example_environment = AAUDIO_POLICY_AUTO
   \<and> resolveMMapExclusivePolicy
       (example_environment\<lparr>AudioGlobal_getMMapPolicy := AAUDIO_POLICY_ALWAYS\<rparr>)
     = AAUDIO_POLICY_NEVER"
proof -
  let ?env = "example_environment\<lparr>AudioGlobal_getMMapPolicy := AAUDIO_POLICY_ALWAYS\<rparr>"
  have "spec_resolvePolicy (AudioGlobal_getMMapPolicy ?env) (getMmapPolicyInfo ?env) DEFAULT
          = AAUDIO_POLICY_ALWAYS"
    by (simp add: spec_resolvePolicy_def example_defs aaudio_consts)
  moreover
  have "spec_resolvePolicy (AudioGlobal_getMMapPolicy example_environment)
          (getMmapPolicyInfo example_environment) DEFAULT = AAUDIO_POLICY_AUTO"
    by (simp add: spec_resolvePolicy_def example_defs aaudio_consts getAAudioPolicy_def
        getAAudioPolicy_loop.simps aidl2legacy_aaudio_policy_def)
  moreover
  have "spec_resolvePolicy AAUDIO_UNSPECIFIED (getMmapPolicyInfo ?env) EXCLUSIVE
          = AAUDIO_POLICY_NEVER"
    by (simp add: spec_resolvePolicy_def example_defs aaudio_consts getAAudioPolicy_def
        getAAudioPolicy_loop.simps aidl2legacy_aaudio_policy_def)
  ultimately show ?thesis
    using resolve_policy_precedence [of ?env AAUDIO_POLICY_ALWAYS]
      resolve_policy_precedence [of example_environment AAUDIO_POLICY_ALWAYS]
    by simp
qed

text \<open>
  C2 as stated fails: with the override set to ALWAYS and a provider that reports NEVER
  for the exclusive axis, the rule of the specification applied to the exclusive axis
  gives ALWAYS, while the code resolves the exclusive policy to NEVER.
\<close>

theorem exclusive_override_counterexample:
  "AudioGlobal_getMMapPolicy
      (example_environment\<lparr>AudioGlobal_getMMapPolicy := AAUDIO_POLICY_ALWAYS\<rparr>)
     = AAUDIO_POLICY_ALWAYS
   \<and> AAUDIO_POLICY_ALWAYS \<noteq> AAUDIO_UNSPECIFIED
   \<and> spec_resolvePolicy AAUDIO_POLICY_ALWAYS example_provider EXCLUSIVE = AAUDIO_POLICY_ALWAYS
   \<and> resolveMMapExclusivePolicy
       (example_environment\<lparr>AudioGlobal_getMMapPolicy := AAUDIO_POLICY_ALWAYS\<rparr>)
     = AAUDIO_POLICY_NEVER
   \<and> AAUDIO_POLICY_NEVER \<noteq> AAUDIO_POLICY_ALWAYS"
  by (simp add: eval_defs spec_resolvePolicy_def)

subsection \<open>Gating of the MMAP path\<close>

text \<open>
  C7. When the performance mode is not low-latency, or a session id other than
  \<^verbatim>\<open>AAUDIO_SESSION_ID_NONE\<close> is requested, the MMAP flag is false whatever the
  general policy is (ALWAYS included), the first stream that build creates is never an
  MMAP stream, and indeed no MMAP stream is created at all. The gates only narrow: the
  MMAP flag after the gates implies that the policy alone allowed MMAP, and the Legacy
  flag is the one the policy gives.
\<close>

theorem build_fastpath_gating:
  assumes "mPerformanceMode b \<noteq> AAUDIO_PERFORMANCE_MODE_LOW_LATENCY
           \<or> mSessionId b \<noteq> AAUDIO_SESSION_ID_NONE"
  shows "\<not> decide_allowMMap mmapPolicy b
       \<and> (\<forall>s rest. out_calls (build env b streamPtr) = Create s # rest \<longrightarrow> \<not> isMMap s)
       \<and> (\<forall>s. Create s \<in> set (out_calls (build env b streamPtr)) \<longrightarrow> \<not> isMMap s)
       \<and> (decide_allowMMap mmapPolicy' b' \<longrightarrow> mmapPolicy' \<noteq> AAUDIO_POLICY_NEVER)
       \<and> decide_allowLegacy mmapPolicy' = (mmapPolicy' \<noteq> AAUDIO_POLICY_ALWAYS)"
proof -
  have gate: "\<not> decide_allowMMap p b" for p
    using assms by (auto simp add: decide_allowMMap_def Let_def)
  have created: "\<not> isMMap s" if "Create s \<in> set (out_calls (build env b streamPtr))" for s
  proof -
    from that have "out_calls (build env b streamPtr) \<noteq> []" by auto
    then have "reachesPrivacyStep env b streamPtr" by (rule build_calls_reaches)
    then have "streamPtr \<noteq> None" "validate env b = AAUDIO_OK"
      "decide_allowMMap (resolveMMapPolicy env) b \<or> decide_allowLegacy (resolveMMapPolicy env)"
      by (simp_all add: reachesPrivacyStep_iff)
    from build_proceeds [OF this] that gate show ?thesis
      by (auto simp add: Let_def dest: createAndOpen_no_mmap)
  qed
  have narrow: "decide_allowMMap mmapPolicy' b' \<longrightarrow> mmapPolicy' \<noteq> AAUDIO_POLICY_NEVER"
    by (auto simp add: decide_allowMMap_def Let_def)
  from gate created narrow show ?thesis
    by (auto simp add: decide_allowLegacy_def)
qed

text \<open>
  A request with performance mode NONE: the MMAP flag is false even under ALWAYS, and
  under the policy AUTO the only stream created is the Legacy track.
\<close>

theorem build_fastpath_gating_witness:
  "mPerformanceMode (example_builder\<lparr>mPerformanceMode := AAUDIO_PERFORMANCE_MODE_NONE\<rparr>)
     \<noteq> AAUDIO_PERFORMANCE_MODE_LOW_LATENCY
   \<and> \<not> decide_allowMMap AAUDIO_POLICY_ALWAYS
         (example_builder\<lparr>mPerformanceMode := AAUDIO_PERFORMANCE_MODE_NONE\<rparr>)
   \<and> out_calls (build example_environment
         (example_builder\<lparr>mPerformanceMode := AAUDIO_PERFORMANCE_MODE_NONE\<rparr>) (Some None))
       = [Create AudioStreamTrack, Open AudioStreamTrack AAUDIO_OK,
          RegisterPlayerBase AudioStreamTrack, LogOpenActual AudioStreamTrack]
   \<and> \<not> isMMap AudioStreamTrack"
proof -
  let ?b = "example_builder\<lparr>mPerformanceMode := AAUDIO_PERFORMANCE_MODE_NONE\<rparr>"
  have mode: "mPerformanceMode ?b \<noteq> AAUDIO_PERFORMANCE_MODE_LOW_LATENCY"
    by (simp add: example_defs aaudio_consts)
  then have hyp: "mPerformanceMode ?b \<noteq> AAUDIO_PERFORMANCE_MODE_LOW_LATENCY
           \<or> mSessionId ?b \<noteq> AAUDIO_SESSION_ID_NONE" by simp
  have calls: "out_calls (build example_environment ?b (Some None))
       = [Create AudioStreamTrack, Open AudioStreamTrack AAUDIO_OK,
          RegisterPlayerBase AudioStreamTrack, LogOpenActual AudioStreamTrack]"
    by (simp add: eval_defs)
  from build_fastpath_gating [OF hyp, of AAUDIO_POLICY_ALWAYS example_environment "Some None"]
  have "\<not> decide_allowMMap AAUDIO_POLICY_ALWAYS ?b"
    and "\<forall>s rest. out_calls (build example_environment ?b (Some None)) = Create s # rest
           \<longrightarrow> \<not> isMMap s"
    by blast+
  with mode calls show ?thesis by simp
qed

subsection \<open>No backend available\<close>

text \<open>
  C3, as the code has it. A request that passes the pre-check and for which both path
  flags are false after the gates fails with \<^verbatim>\<open>AAUDIO_ERROR_ILLEGAL_ARGUMENT\<close>, before
  any stream is created. There is no separate code for this failure: a request with an
  unknown direction and a request with an unknown performance mode fail with the same
  code.
\<close>

theorem build_no_backend_code:
  "(streamPtr \<noteq> None \<and> validate env b = AAUDIO_OK
      \<and> \<not> decide_allowMMap (resolveMMapPolicy env) b
      \<and> \<not> decide_allowLegacy (resolveMMapPolicy env)
     \<longrightarrow> out_result (build env b streamPtr) = AAUDIO_ERROR_ILLEGAL_ARGUMENT
         \<and> out_stream (build env b streamPtr) = Some None
         \<and> out_calls (build env b streamPtr) = [])
   \<and> (streamPtr \<noteq> None \<and> validate env b = AAUDIO_OK
      \<and> mDirection b \<noteq> AAUDIO_DIRECTION_INPUT \<and> mDirection b \<noteq> AAUDIO_DIRECTION_OUTPUT
     \<longrightarrow> out_result (build env b streamPtr) = AAUDIO_ERROR_ILLEGAL_ARGUMENT)
   \<and> (streamPtr \<noteq> None \<and> AAudioStreamParameters_validate env b = AAUDIO_OK
      \<and> mPerformanceMode b \<noteq> AAUDIO_PERFORMANCE_MODE_NONE
      \<and> mPerformanceMode b \<noteq> AAUDIO_PERFORMANCE_MODE_POWER_SAVING
      \<and> mPerformanceMode b \<noteq> AAUDIO_PERFORMANCE_MODE_LOW_LATENCY
     \<longrightarrow> out_result (build env b streamPtr) = AAUDIO_ERROR_ILLEGAL_ARGUMENT)"
proof (intro conjI impI)
  assume h: "streamPtr \<noteq> None \<and> validate env b = AAUDIO_OK
      \<and> \<not> decide_allowMMap (resolveMMapPolicy env) b
      \<and> \<not> decide_allowLegacy (resolveMMapPolicy env)"
  then have out: "build env b streamPtr =
     \<lparr>out_result = AAUDIO_ERROR_ILLEGAL_ARGUMENT, out_stream = Some None,
      out_builder = snd (correctSharingMode (resolveMMapExclusivePolicy env) b), out_calls = []\<rparr>"
    by (intro build_no_backend) simp_all
  show "out_result (build env b streamPtr) = AAUDIO_ERROR_ILLEGAL_ARGUMENT"
    and "out_stream (build env b streamPtr) = Some None"
    and "out_calls (build env b streamPtr) = []"
    by (simp_all add: out)
next
  assume h: "streamPtr \<noteq> None \<and> validate env b = AAUDIO_OK
      \<and> mDirection b \<noteq> AAUDIO_DIRECTION_INPUT \<and> mDirection b \<noteq> AAUDIO_DIRECTION_OUTPUT"
  show "out_result (build env b streamPtr) = AAUDIO_ERROR_ILLEGAL_ARGUMENT"
  proof (cases "decide_allowMMap (resolveMMapPolicy env) b \<or> decide_allowLegacy (resolveMMapPolicy env)")
    case True
    from h have "streamPtr \<noteq> None" "validate env b = AAUDIO_OK" by simp_all
    from build_proceeds [OF this True] h show ?thesis
      by (simp add: Let_def createAndOpen_bad_direction mDirection_steps)
  next
    case False
    with h have "build env b streamPtr =
       \<lparr>out_result = AAUDIO_ERROR_ILLEGAL_ARGUMENT, out_stream = Some None,
        out_builder = snd (correctSharingMode (resolveMMapExclusivePolicy env) b), out_calls = []\<rparr>"
      by (intro build_no_backend) simp_all
    then show ?thesis by simp
  qed
next
  assume h: "streamPtr \<noteq> None \<and> AAudioStreamParameters_validate env b = AAUDIO_OK
      \<and> mPerformanceMode b \<noteq> AAUDIO_PERFORMANCE_MODE_NONE
      \<and> mPerformanceMode b \<noteq> AAUDIO_PERFORMANCE_MODE_POWER_SAVING
      \<and> mPerformanceMode b \<noteq> AAUDIO_PERFORMANCE_MODE_LOW_LATENCY"
  then have v: "validate env b = AAUDIO_ERROR_ILLEGAL_ARGUMENT"
    by (simp add: validate_def Let_def)
  then have "validate env b \<noteq> AAUDIO_OK" by (simp add: aaudio_consts)
  with h build_invalid [of streamPtr env b] v
  show "out_result (build env b streamPtr) = AAUDIO_ERROR_ILLEGAL_ARGUMENT" by simp
qed

text \<open>
  The three cases at concrete requests: policy ALWAYS with performance mode NONE,
  an unknown direction, an unknown performance mode.
\<close>

theorem build_no_backend_code_witness:
  "validate (example_environment\<lparr>AudioGlobal_getMMapPolicy := AAUDIO_POLICY_ALWAYS\<rparr>)
      (example_builder\<lparr>mPerformanceMode := AAUDIO_PERFORMANCE_MODE_NONE\<rparr>) = AAUDIO_OK
   \<and> \<not> decide_allowMMap
        (resolveMMapPolicy (example_environment\<lparr>AudioGlobal_getMMapPolicy := AAUDIO_POLICY_ALWAYS\<rparr>))
        (example_builder\<lparr>mPerformanceMode := AAUDIO_PERFORMANCE_MODE_NONE\<rparr>)
   \<and> \<not> decide_allowLegacy
        (resolveMMapPolicy (example_environment\<lparr>AudioGlobal_getMMapPolicy := AAUDIO_POLICY_ALWAYS\<rparr>))
   \<and> out_result (build (example_environment\<lparr>AudioGlobal_getMMapPolicy := AAUDIO_POLICY_ALWAYS\<rparr>)
        (example_builder\<lparr>mPerformanceMode := AAUDIO_PERFORMANCE_MODE_NONE\<rparr>) (Some None))
       = AAUDIO_ERROR_ILLEGAL_ARGUMENT
   \<and> out_calls (build (example_environment\<lparr>AudioGlobal_getMMapPolicy := AAUDIO_POLICY_ALWAYS\<rparr>)
        (example_builder\<lparr>mPerformanceMode := AAUDIO_PERFORMANCE_MODE_NONE\<rparr>) (Some None)) = []
   \<and> validate example_environment (example_builder\<lparr>mDirection := 5\<rparr>) = AAUDIO_OK
   \<and> out_result (build example_environment (example_builder\<lparr>mDirection := 5\<rparr>) (Some None))
       = AAUDIO_ERROR_ILLEGAL_ARGUMENT
   \<and> out_result (build example_environment (example_builder\<lparr>mPerformanceMode := 99\<rparr>) (Some None))
       = AAUDIO_ERROR_ILLEGAL_ARGUMENT"
proof -
  let ?env = "example_environment\<lparr>AudioGlobal_getMMapPolicy := AAUDIO_POLICY_ALWAYS\<rparr>"
  let ?b = "example_builder\<lparr>mPerformanceMode := AAUDIO_PERFORMANCE_MODE_NONE\<rparr>"
  let ?d = "example_builder\<lparr>mDirection := 5\<rparr>"
  let ?m = "example_builder\<lparr>mPerformanceMode := 99\<rparr>"
  have valid: "validate ?env ?b = AAUDIO_OK"
    by (simp add: validate_def example_defs aaudio_consts)
  have flags: "\<not> decide_allowMMap (resolveMMapPolicy ?env) ?b"
    "\<not> decide_allowLegacy (resolveMMapPolicy ?env)"
    by (simp_all add: step_defs example_defs aaudio_consts)
  have valid_d: "validate example_environment ?d = AAUDIO_OK"
    by (simp add: validate_def example_defs aaudio_consts)
  have dir: "mDirection ?d \<noteq> AAUDIO_DIRECTION_INPUT" "mDirection ?d \<noteq> AAUDIO_DIRECTION_OUTPUT"
    by (simp_all add: aaudio_consts)
  have mode: "AAudioStreamParameters_validate example_environment ?m = AAUDIO_OK"
    "mPerformanceMode ?m \<noteq> AAUDIO_PERFORMANCE_MODE_NONE"
    "mPerformanceMode ?m \<noteq> AAUDIO_PERFORMANCE_MODE_POWER_SAVING"
    "mPerformanceMode ?m \<noteq> AAUDIO_PERFORMANCE_MODE_LOW_LATENCY"
    by (simp_all add: example_defs aaudio_consts)
  from valid flags build_no_backend_code [of "Some None" ?env ?b]
  have "out_result (build ?env ?b (Some None)) = AAUDIO_ERROR_ILLEGAL_ARGUMENT"
    and "out_calls (build ?env ?b (Some None)) = []" by simp_all
  moreover from valid_d dir build_no_backend_code [of "Some None" example_environment ?d]
  have "out_result (build example_environment ?d (Some None)) = AAUDIO_ERROR_ILLEGAL_ARGUMENT"
    by simp
  moreover from mode build_no_backend_code [of "Some None" example_environment ?m]
  have "out_result (build example_environment ?m (Some None)) = AAUDIO_ERROR_ILLEGAL_ARGUMENT"
    by simp
  ultimately show ?thesis using valid flags valid_d by simp
qed

text \<open>
  C3 as stated fails: the code returned when both flags are false is the very code
  that the pre-check returns for an unknown performance mode, and a request that leaves
  the Legacy path allowed but has an unknown direction gets it too.
\<close>

theorem no_backend_code_counterexample:
  "validate (example_environment\<lparr>AudioGlobal_getMMapPolicy := AAUDIO_POLICY_ALWAYS\<rparr>)
      (example_builder\<lparr>mPerformanceMode := AAUDIO_PERFORMANCE_MODE_NONE\<rparr>) = AAUDIO_OK
   \<and> \<not> decide_allowMMap
        (resolveMMapPolicy (example_environment\<lparr>AudioGlobal_getMMapPolicy := AAUDIO_POLICY_ALWAYS\<rparr>))
        (example_builder\<lparr>mPerformanceMode := AAUDIO_PERFORMANCE_MODE_NONE\<rparr>)
   \<and> \<not> decide_allowLegacy
        (resolveMMapPolicy (example_environment\<lparr>AudioGlobal_getMMapPolicy := AAUDIO_POLICY_ALWAYS\<rparr>))
   \<and> out_result (build (example_environment\<lparr>AudioGlobal_getMMapPolicy := AAUDIO_POLICY_ALWAYS\<rparr>)
        (example_builder\<lparr>mPerformanceMode := AAUDIO_PERFORMANCE_MODE_NONE\<rparr>) (Some None))
       = AAUDIO_ERROR_ILLEGAL_ARGUMENT
   \<and> validate example_environment (example_builder\<lparr>mPerformanceMode := 99\<rparr>)
       = AAUDIO_ERROR_ILLEGAL_ARGUMENT
   \<and> decide_allowLegacy (resolveMMapPolicy example_environment)
   \<and> out_result (build example_environment (example_builder\<lparr>mDirection := 5\<rparr>) (Some None))
       = AAUDIO_ERROR_ILLEGAL_ARGUMENT"
  by (simp add: eval_defs)

subsection \<open>Privacy-sensitive flag\<close>

text \<open>
  C4, as the code has it. With the privacy request unspecified the flag is true exactly
  when the input preset is camcorder or voice-communication; an enabled request gives
  true and a disabled request gives false. The direction plays no part. A build that
  reaches the privacy step leaves this flag in the builder.
\<close>

theorem privacy_inference:
  "(mPrivacySensitiveReq b = PRIVACY_SENSITIVE_DEFAULT \<longrightarrow>
      mIsPrivacySensitive (inferPrivacySensitive b) =
        (mInputPreset b = AAUDIO_INPUT_PRESET_CAMCORDER
         \<or> mInputPreset b = AAUDIO_INPUT_PRESET_VOICE_COMMUNICATION))
   \<and> (mPrivacySensitiveReq b = PRIVACY_SENSITIVE_ENABLED \<longrightarrow>
        mIsPrivacySensitive (inferPrivacySensitive b))
   \<and> (mPrivacySensitiveReq b = PRIVACY_SENSITIVE_DISABLED \<longrightarrow>
        \<not> mIsPrivacySensitive (inferPrivacySensitive b))
   \<and> mIsPrivacySensitive (inferPrivacySensitive (b\<lparr>mDirection := direction\<rparr>))
       = mIsPrivacySensitive (inferPrivacySensitive b)
   \<and> (reachesPrivacyStep env b streamPtr \<longrightarrow>
        mIsPrivacySensitive (out_builder (build env b streamPtr))
          = mIsPrivacySensitive (inferPrivacySensitive b))"
proof (intro conjI impI)
  assume "mPrivacySensitiveReq b = PRIVACY_SENSITIVE_DEFAULT"
  then show "mIsPrivacySensitive (inferPrivacySensitive b) =
        (mInputPreset b = AAUDIO_INPUT_PRESET_CAMCORDER
         \<or> mInputPreset b = AAUDIO_INPUT_PRESET_VOICE_COMMUNICATION)"
    by (simp add: inferPrivacySensitive_flag)
next
  assume "mPrivacySensitiveReq b = PRIVACY_SENSITIVE_ENABLED"
  moreover have "PRIVACY_SENSITIVE_ENABLED \<noteq> PRIVACY_SENSITIVE_DEFAULT"
    by (simp add: aaudio_consts)
  ultimately show "mIsPrivacySensitive (inferPrivacySensitive b)"
    by (simp add: inferPrivacySensitive_flag)
next
  assume "mPrivacySensitiveReq b = PRIVACY_SENSITIVE_DISABLED"
  moreover have "PRIVACY_SENSITIVE_DISABLED \<noteq> PRIVACY_SENSITIVE_DEFAULT"
    and "PRIVACY_SENSITIVE_DISABLED \<noteq> PRIVACY_SENSITIVE_ENABLED"
    by (simp_all add: aaudio_consts)
  ultimately show "\<not> mIsPrivacySensitive (inferPrivacySensitive b)"
    by (simp add: inferPrivacySensitive_flag)
next
  show "mIsPrivacySensitive (inferPrivacySensitive (b\<lparr>mDirection := direction\<rparr>))
       = mIsPrivacySensitive (inferPrivacySensitive b)"
    by (simp add: inferPrivacySensitive_flag)
next
  assume "reachesPrivacyStep env b streamPtr"
  then have "out_builder (build env b streamPtr) =
      inferPrivacySensitive (snd (correctSharingMode (resolveMMapExclusivePolicy env) b))"
    by (rule build_reaches)
  then show "mIsPrivacySensitive (out_builder (build env b streamPtr))
          = mIsPrivacySensitive (inferPrivacySensitive b)"
    by (simp add: inferPrivacySensitive_flag correctSharingMode_other_fields)
qed

text \<open>
  The three branches at concrete requests, and a build that reaches the step.
\<close>

theorem privacy_inference_witness:
  "mPrivacySensitiveReq example_builder = PRIVACY_SENSITIVE_DEFAULT
   \<and> mInputPreset example_builder = AAUDIO_INPUT_PRESET_VOICE_COMMUNICATION
   \<and> mIsPrivacySensitive (inferPrivacySensitive example_builder)
   \<and> reachesPrivacyStep example_environment example_builder (Some None)
   \<and> mIsPrivacySensitive (out_builder (build example_environment example_builder (Some None)))
   \<and> mIsPrivacySensitive
       (inferPrivacySensitive (example_builder\<lparr>mPrivacySensitiveReq := PRIVACY_SENSITIVE_ENABLED\<rparr>))
   \<and> \<not> mIsPrivacySensitive
       (inferPrivacySensitive (example_builder\<lparr>mPrivacySensitiveReq := PRIVACY_SENSITIVE_DISABLED\<rparr>))"
proof -
  have req: "mPrivacySensitiveReq example_builder = PRIVACY_SENSITIVE_DEFAULT"
    and preset: "mInputPreset example_builder = AAUDIO_INPUT_PRESET_VOICE_COMMUNICATION"
    by (simp_all add: example_defs)
  have reach: "reachesPrivacyStep example_environment example_builder (Some None)"
    by (simp add: reachesPrivacyStep_def validate_def step_defs example_defs aaudio_consts
        getAAudioPolicy_def getAAudioPolicy_loop.simps aidl2legacy_aaudio_policy_def)
  note at_default = privacy_inference
    [of example_builder AAUDIO_DIRECTION_INPUT example_environment "Some None"]
  from req preset at_default
  have step: "mIsPrivacySensitive (inferPrivacySensitive example_builder)" by simp
  from reach at_default
  have "mIsPrivacySensitive (out_builder (build example_environment example_builder (Some None)))
          = mIsPrivacySensitive (inferPrivacySensitive example_builder)"
    by blast
  with step
  have after: "mIsPrivacySensitive
      (out_builder (build example_environment example_builder (Some None)))"
    by simp
  from privacy_inference
    [of "example_builder\<lparr>mPrivacySensitiveReq := PRIVACY_SENSITIVE_ENABLED\<rparr>"]
  have enabled: "mIsPrivacySensitive
       (inferPrivacySensitive (example_builder\<lparr>mPrivacySensitiveReq := PRIVACY_SENSITIVE_ENABLED\<rparr>))"
    by simp
  from privacy_inference
    [of "example_builder\<lparr>mPrivacySensitiveReq := PRIVACY_SENSITIVE_DISABLED\<rparr>"]
  have disabled: "\<not> mIsPrivacySensitive
       (inferPrivacySensitive (example_builder\<lparr>mPrivacySensitiveReq := PRIVACY_SENSITIVE_DISABLED\<rparr>))"
    by simp
  from req preset step reach after enabled disabled show ?thesis by blast
qed

text \<open>
  C4 as stated fails: a playback request with the voice-communication preset and no
  privacy request ends with the flag set, in the step itself and after a whole build.
\<close>

theorem playback_privacy_counterexample:
  "mDirection example_builder = AAUDIO_DIRECTION_OUTPUT
   \<and> AAUDIO_DIRECTION_OUTPUT \<noteq> AAUDIO_DIRECTION_INPUT
   \<and> mPrivacySensitiveReq example_builder = PRIVACY_SENSITIVE_DEFAULT
   \<and> mInputPreset example_builder = AAUDIO_INPUT_PRESET_VOICE_COMMUNICATION
   \<and> mIsPrivacySensitive (inferPrivacySensitive example_builder)
   \<and> mIsPrivacySensitive
       (out_builder (build example_environment example_builder (Some None)))"
  by (simp add: eval_defs)

text \<open>
  C10. For a build that reaches the privacy step, the flag in the builder afterwards is
  a function of the privacy request and the input preset: two such builds, in any
  environments, that agree on these two fields end with the same flag, which is given
  by the stated expression. The step starts by clearing the flag, so its outcome is the
  same whatever the flag was before.
\<close>

theorem build_privacy_flag_pure:
  assumes "reachesPrivacyStep env b streamPtr"
      and "reachesPrivacyStep env' b' streamPtr'"
      and "mPrivacySensitiveReq b = mPrivacySensitiveReq b'"
      and "mInputPreset b = mInputPreset b'"
  shows "mIsPrivacySensitive (out_builder (build env b streamPtr))
           = mIsPrivacySensitive (out_builder (build env' b' streamPtr'))
       \<and> mIsPrivacySensitive (out_builder (build env b streamPtr))
           = (if mPrivacySensitiveReq b = PRIVACY_SENSITIVE_DEFAULT
              then mInputPreset b = AAUDIO_INPUT_PRESET_CAMCORDER
                   \<or> mInputPreset b = AAUDIO_INPUT_PRESET_VOICE_COMMUNICATION
              else mPrivacySensitiveReq b = PRIVACY_SENSITIVE_ENABLED)
       \<and> inferPrivacySensitive (b\<lparr>mIsPrivacySensitive := before\<rparr>)
           = inferPrivacySensitive (b\<lparr>mIsPrivacySensitive := False\<rparr>)"
proof -
  have flag: "mIsPrivacySensitive (out_builder (build e c p))
           = (if mPrivacySensitiveReq c = PRIVACY_SENSITIVE_DEFAULT
              then mInputPreset c = AAUDIO_INPUT_PRESET_CAMCORDER
                   \<or> mInputPreset c = AAUDIO_INPUT_PRESET_VOICE_COMMUNICATION
              else mPrivacySensitiveReq c = PRIVACY_SENSITIVE_ENABLED)"
    if "reachesPrivacyStep e c p" for e c p
    using build_reaches [OF that]
    by (simp add: inferPrivacySensitive_flag correctSharingMode_other_fields)
  have reset: "inferPrivacySensitive (b\<lparr>mIsPrivacySensitive := before\<rparr>)
           = inferPrivacySensitive (b\<lparr>mIsPrivacySensitive := False\<rparr>)"
    by (simp add: inferPrivacySensitive_def Let_def)
  from flag [OF assms(1)] flag [OF assms(2)] assms(3,4) reset show ?thesis
    by simp
qed

text \<open>
  Two builds of a request with privacy disabled, one entered with the flag set and one
  with the flag clear: both end with the flag clear.
\<close>

theorem build_privacy_flag_pure_witness:
  "reachesPrivacyStep example_environment
      (example_builder\<lparr>mPrivacySensitiveReq := PRIVACY_SENSITIVE_DISABLED,
                       mIsPrivacySensitive := True\<rparr>) (Some None)
   \<and> reachesPrivacyStep example_environment
      (example_builder\<lparr>mPrivacySensitiveReq := PRIVACY_SENSITIVE_DISABLED\<rparr>) (Some None)
   \<and> mIsPrivacySensitive (out_builder (build example_environment
        (example_builder\<lparr>mPrivacySensitiveReq := PRIVACY_SENSITIVE_DISABLED,
                         mIsPrivacySensitive := True\<rparr>) (Some None)))
     = mIsPrivacySensitive (out_builder (build example_environment
        (example_builder\<lparr>mPrivacySensitiveReq := PRIVACY_SENSITIVE_DISABLED\<rparr>) (Some None)))
   \<and> \<not> mIsPrivacySensitive (out_builder (build example_environment
        (example_builder\<lparr>mPrivacySensitiveReq := PRIVACY_SENSITIVE_DISABLED,
                         mIsPrivacySensitive := True\<rparr>) (Some None)))"
proof -
  let ?b = "example_builder\<lparr>mPrivacySensitiveReq := PRIVACY_SENSITIVE_DISABLED,
                            mIsPrivacySensitive := True\<rparr>"
  let ?b' = "example_builder\<lparr>mPrivacySensitiveReq := PRIVACY_SENSITIVE_DISABLED\<rparr>"
  have reach: "reachesPrivacyStep example_environment ?b (Some None)"
    "reachesPrivacyStep example_environment ?b' (Some None)"
    by (simp_all add: reachesPrivacyStep_def validate_def step_defs example_defs aaudio_consts
        getAAudioPolicy_def getAAudioPolicy_loop.simps aidl2legacy_aaudio_policy_def)
  have same: "mPrivacySensitiveReq ?b = mPrivacySensitiveReq ?b'" "mInputPreset ?b = mInputPreset ?b'"
    by simp_all
  have disabled: "mPrivacySensitiveReq ?b \<noteq> PRIVACY_SENSITIVE_DEFAULT"
    "mPrivacySensitiveReq ?b \<noteq> PRIVACY_SENSITIVE_ENABLED"
    by (simp_all add: aaudio_consts)
  note pure = build_privacy_flag_pure [OF reach same, where before = True]
  from pure
  have eq: "mIsPrivacySensitive (out_builder (build example_environment ?b (Some None)))
          = mIsPrivacySensitive (out_builder (build example_environment ?b' (Some None)))"
    by (rule conjunct1)
  from pure
  have "mIsPrivacySensitive (out_builder (build example_environment ?b (Some None)))
          = (if mPrivacySensitiveReq ?b = PRIVACY_SENSITIVE_DEFAULT
              then mInputPreset ?b = AAUDIO_INPUT_PRESET_CAMCORDER
                   \<or> mInputPreset ?b = AAUDIO_INPUT_PRESET_VOICE_COMMUNICATION
              else mPrivacySensitiveReq ?b = PRIVACY_SENSITIVE_ENABLED)"
    by (rule conjunct2 [THEN conjunct1])
  with disabled
  have "\<not> mIsPrivacySensitive (out_builder (build example_environment ?b (Some None)))"
    by simp
  with eq reach show ?thesis by blast
qed

subsection \<open>Writes to the builder\<close>

text \<open>
  C6, for requests that get past the pre-check. When the pointer is not null, the
  pre-check passes, the sharing mode is exclusive and the exclusive policy resolves to
  NEVER, the local sharing mode becomes shared and the builder holds shared after build
  returns, whatever the result of build.
\<close>

theorem build_sharing_mode_downgrade:
  assumes "streamPtr \<noteq> None" and "validate env b = AAUDIO_OK"
      and "mSharingMode b = AAUDIO_SHARING_MODE_EXCLUSIVE"
      and "resolveMMapExclusivePolicy env = AAUDIO_POLICY_NEVER"
  shows "fst (correctSharingMode (resolveMMapExclusivePolicy env) b) = AAUDIO_SHARING_MODE_SHARED
       \<and> mSharingMode (out_builder (build env b streamPtr)) = AAUDIO_SHARING_MODE_SHARED"
proof -
  let ?c = "correctSharingMode (resolveMMapExclusivePolicy env) b"
  from assms(3,4) have c: "?c = (AAUDIO_SHARING_MODE_SHARED, b\<lparr>mSharingMode := AAUDIO_SHARING_MODE_SHARED\<rparr>)"
    by (simp add: correctSharingMode_def)
  show ?thesis
  proof (cases "decide_allowMMap (resolveMMapPolicy env) b \<or> decide_allowLegacy (resolveMMapPolicy env)")
    case True
    from build_proceeds [OF assms(1,2) True] c show ?thesis
      by (simp add: Let_def inferPrivacySensitive_other_fields)
  next
    case False
    then have "\<not> decide_allowMMap (resolveMMapPolicy env) b"
      and "\<not> decide_allowLegacy (resolveMMapPolicy env)" by simp_all
    from build_no_backend [OF assms(1,2) this] c show ?thesis by simp
  qed
qed

text \<open>
  A build that succeeds and one whose opens all fail: both leave the builder shared.
\<close>

theorem build_sharing_mode_downgrade_witness:
  "validate example_environment example_builder = AAUDIO_OK
   \<and> mSharingMode example_builder = AAUDIO_SHARING_MODE_EXCLUSIVE
   \<and> resolveMMapExclusivePolicy example_environment = AAUDIO_POLICY_NEVER
   \<and> out_result (build example_environment example_builder (Some None)) = AAUDIO_OK
   \<and> mSharingMode (out_builder (build example_environment example_builder (Some None)))
       = AAUDIO_SHARING_MODE_SHARED
   \<and> out_result (build (example_environment\<lparr>stream_open := open_never\<rparr>) example_builder (Some None))
       = AAUDIO_ERROR_UNAVAILABLE
   \<and> mSharingMode (out_builder
        (build (example_environment\<lparr>stream_open := open_never\<rparr>) example_builder (Some None)))
       = AAUDIO_SHARING_MODE_SHARED"
proof -
  let ?env = "example_environment\<lparr>stream_open := open_never\<rparr>"
  have ptr: "Some None \<noteq> (None :: AudioStream option option)" by simp
  have valid: "validate example_environment example_builder = AAUDIO_OK"
    "validate ?env example_builder = AAUDIO_OK"
    by (simp_all add: validate_def example_defs aaudio_consts)
  have mode: "mSharingMode example_builder = AAUDIO_SHARING_MODE_EXCLUSIVE"
    by (simp add: example_defs)
  have never: "resolveMMapExclusivePolicy example_environment = AAUDIO_POLICY_NEVER"
    "resolveMMapExclusivePolicy ?env = AAUDIO_POLICY_NEVER"
    by (simp_all add: eval_defs)
  have results: "out_result (build example_environment example_builder (Some None)) = AAUDIO_OK"
    "out_result (build ?env example_builder (Some None)) = AAUDIO_ERROR_UNAVAILABLE"
    by (simp_all add: eval_defs)
  from build_sharing_mode_downgrade [OF ptr valid(1) mode never(1)]
    build_sharing_mode_downgrade [OF ptr valid(2) mode never(2)]
    valid mode never results
  show ?thesis by simp
qed

text \<open>
  C6 as stated fails: an exclusive request whose frames-per-callback is out of range
  fails the pre-check, build returns before the sharing-mode step, and the builder
  still holds exclusive.
\<close>

theorem downgrade_after_validation_counterexample:
  "mSharingMode (example_builder\<lparr>mFramesPerDataCallback := 2000000\<rparr>) = AAUDIO_SHARING_MODE_EXCLUSIVE
   \<and> resolveMMapExclusivePolicy example_environment = AAUDIO_POLICY_NEVER
   \<and> out_result (build example_environment (example_builder\<lparr>mFramesPerDataCallback := 2000000\<rparr>) (Some None))
       = AAUDIO_ERROR_OUT_OF_RANGE
   \<and> mSharingMode (out_builder
        (build example_environment (example_builder\<lparr>mFramesPerDataCallback := 2000000\<rparr>) (Some None)))
       = AAUDIO_SHARING_MODE_EXCLUSIVE
   \<and> AAUDIO_SHARING_MODE_EXCLUSIVE \<noteq> AAUDIO_SHARING_MODE_SHARED"
  by (simp add: eval_defs)

text \<open>
  C8, as the code has it. A build that ends with an error of the pre-check returns that
  error, leaves the builder as it was and creates no stream. A build that ends because
  both path flags are false creates no stream and has not touched the privacy flag, but
  the sharing-mode step has already run: the builder is the original one with the
  sharing mode downgraded to shared if it was exclusive under the exclusive policy
  NEVER, and unchanged otherwise.
\<close>

theorem build_early_errors:
  "(streamPtr \<noteq> None \<and> validate env b \<noteq> AAUDIO_OK \<longrightarrow>
      out_result (build env b streamPtr) = validate env b
      \<and> out_builder (build env b streamPtr) = b
      \<and> out_calls (build env b streamPtr) = [])
   \<and> (streamPtr \<noteq> None \<and> validate env b = AAUDIO_OK
       \<and> \<not> decide_allowMMap (resolveMMapPolicy env) b
       \<and> \<not> decide_allowLegacy (resolveMMapPolicy env) \<longrightarrow>
      out_result (build env b streamPtr) = AAUDIO_ERROR_ILLEGAL_ARGUMENT
      \<and> out_calls (build env b streamPtr) = []
      \<and> mIsPrivacySensitive (out_builder (build env b streamPtr)) = mIsPrivacySensitive b
      \<and> out_builder (build env b streamPtr) =
          (if mSharingMode b = AAUDIO_SHARING_MODE_EXCLUSIVE
              \<and> resolveMMapExclusivePolicy env = AAUDIO_POLICY_NEVER
           then b\<lparr>mSharingMode := AAUDIO_SHARING_MODE_SHARED\<rparr> else b))"
proof (intro conjI impI)
  assume "streamPtr \<noteq> None \<and> validate env b \<noteq> AAUDIO_OK"
  then have out: "build env b streamPtr =
     \<lparr>out_result = validate env b, out_stream = Some None, out_builder = b, out_calls = []\<rparr>"
    by (intro build_invalid) simp_all
  show "out_result (build env b streamPtr) = validate env b"
    and "out_builder (build env b streamPtr) = b"
    and "out_calls (build env b streamPtr) = []"
    by (simp_all add: out)
next
  assume "streamPtr \<noteq> None \<and> validate env b = AAUDIO_OK
       \<and> \<not> decide_allowMMap (resolveMMapPolicy env) b
       \<and> \<not> decide_allowLegacy (resolveMMapPolicy env)"
  then have out: "build env b streamPtr =
     \<lparr>out_result = AAUDIO_ERROR_ILLEGAL_ARGUMENT, out_stream = Some None,
      out_builder = snd (correctSharingMode (resolveMMapExclusivePolicy env) b), out_calls = []\<rparr>"
    by (intro build_no_backend) simp_all
  show "out_result (build env b streamPtr) = AAUDIO_ERROR_ILLEGAL_ARGUMENT"
    and "out_calls (build env b streamPtr) = []"
    and "mIsPrivacySensitive (out_builder (build env b streamPtr)) = mIsPrivacySensitive b"
    and "out_builder (build env b streamPtr) =
          (if mSharingMode b = AAUDIO_SHARING_MODE_EXCLUSIVE
              \<and> resolveMMapExclusivePolicy env = AAUDIO_POLICY_NEVER
           then b\<lparr>mSharingMode := AAUDIO_SHARING_MODE_SHARED\<rparr> else b)"
    by (simp_all add: out correctSharingMode_def Let_def)
qed

text \<open>
  A request that fails the pre-check, and a shared request with a session id under the
  policy ALWAYS: both builders come back unchanged.
\<close>

theorem build_early_errors_witness:
  "validate example_environment (example_builder\<lparr>mPerformanceMode := 99\<rparr>) \<noteq> AAUDIO_OK
   \<and> out_builder (build example_environment (example_builder\<lparr>mPerformanceMode := 99\<rparr>) (Some None))
       = example_builder\<lparr>mPerformanceMode := 99\<rparr>
   \<and> validate (example_environment\<lparr>AudioGlobal_getMMapPolicy := AAUDIO_POLICY_ALWAYS\<rparr>)
       (example_builder\<lparr>mSessionId := 0, mSharingMode := AAUDIO_SHARING_MODE_SHARED\<rparr>) = AAUDIO_OK
   \<and> \<not> decide_allowMMap
         (resolveMMapPolicy (example_environment\<lparr>AudioGlobal_getMMapPolicy := AAUDIO_POLICY_ALWAYS\<rparr>))
         (example_builder\<lparr>mSessionId := 0, mSharingMode := AAUDIO_SHARING_MODE_SHARED\<rparr>)
   \<and> \<not> decide_allowLegacy
         (resolveMMapPolicy (example_environment\<lparr>AudioGlobal_getMMapPolicy := AAUDIO_POLICY_ALWAYS\<rparr>))
   \<and> out_result (build (example_environment\<lparr>AudioGlobal_getMMapPolicy := AAUDIO_POLICY_ALWAYS\<rparr>)
        (example_builder\<lparr>mSessionId := 0, mSharingMode := AAUDIO_SHARING_MODE_SHARED\<rparr>) (Some None))
       = AAUDIO_ERROR_ILLEGAL_ARGUMENT
   \<and> out_builder (build (example_environment\<lparr>AudioGlobal_getMMapPolicy := AAUDIO_POLICY_ALWAYS\<rparr>)
        (example_builder\<lparr>mSessionId := 0, mSharingMode := AAUDIO_SHARING_MODE_SHARED\<rparr>) (Some None))
       = example_builder\<lparr>mSessionId := 0, mSharingMode := AAUDIO_SHARING_MODE_SHARED\<rparr>"
proof -
  let ?env = "example_environment\<lparr>AudioGlobal_getMMapPolicy := AAUDIO_POLICY_ALWAYS\<rparr>"
  let ?bad = "example_builder\<lparr>mPerformanceMode := 99\<rparr>"
  let ?b = "example_builder\<lparr>mSessionId := 0, mSharingMode := AAUDIO_SHARING_MODE_SHARED\<rparr>"
  have invalid: "validate example_environment ?bad \<noteq> AAUDIO_OK"
    by (simp add: validate_def example_defs aaudio_consts)
  have valid: "validate ?env ?b = AAUDIO_OK"
    by (simp add: validate_def example_defs aaudio_consts)
  have flags: "\<not> decide_allowMMap (resolveMMapPolicy ?env) ?b"
    "\<not> decide_allowLegacy (resolveMMapPolicy ?env)"
    by (simp_all add: step_defs example_defs aaudio_consts)
  have shared: "mSharingMode ?b \<noteq> AAUDIO_SHARING_MODE_EXCLUSIVE"
    by (simp add: aaudio_consts)
  from invalid build_early_errors [of "Some None" example_environment ?bad]
  have "out_builder (build example_environment ?bad (Some None)) = ?bad" by simp
  moreover
  from valid flags shared build_early_errors [of "Some None" ?env ?b]
  have "out_result (build ?env ?b (Some None)) = AAUDIO_ERROR_ILLEGAL_ARGUMENT"
    and "out_builder (build ?env ?b (Some None)) = ?b" by simp_all
  ultimately show ?thesis using invalid valid flags by simp
qed

text \<open>
  C8 as stated fails: an exclusive request with performance mode NONE under the general
  policy ALWAYS and the exclusive policy NEVER ends with both flags false, and the
  builder that comes back holds shared instead of exclusive.
\<close>

theorem no_backend_side_effect_counterexample:
  "validate (example_environment\<lparr>AudioGlobal_getMMapPolicy := AAUDIO_POLICY_ALWAYS\<rparr>)
      (example_builder\<lparr>mPerformanceMode := AAUDIO_PERFORMANCE_MODE_NONE\<rparr>) = AAUDIO_OK
   \<and> \<not> decide_allowMMap
         (resolveMMapPolicy (example_environment\<lparr>AudioGlobal_getMMapPolicy := AAUDIO_POLICY_ALWAYS\<rparr>))
         (example_builder\<lparr>mPerformanceMode := AAUDIO_PERFORMANCE_MODE_NONE\<rparr>)
   \<and> \<not> decide_allowLegacy
         (resolveMMapPolicy (example_environment\<lparr>AudioGlobal_getMMapPolicy := AAUDIO_POLICY_ALWAYS\<rparr>))
   \<and> out_result (build (example_environment\<lparr>AudioGlobal_getMMapPolicy := AAUDIO_POLICY_ALWAYS\<rparr>)
        (example_builder\<lparr>mPerformanceMode := AAUDIO_PERFORMANCE_MODE_NONE\<rparr>) (Some None))
       = AAUDIO_ERROR_ILLEGAL_ARGUMENT
   \<and> out_calls (build (example_environment\<lparr>AudioGlobal_getMMapPolicy := AAUDIO_POLICY_ALWAYS\<rparr>)
        (example_builder\<lparr>mPerformanceMode := AAUDIO_PERFORMANCE_MODE_NONE\<rparr>) (Some None)) = []
   \<and> mSharingMode (example_builder\<lparr>mPerformanceMode := AAUDIO_PERFORMANCE_MODE_NONE\<rparr>)
       = AAUDIO_SHARING_MODE_EXCLUSIVE
   \<and> mSharingMode (out_builder
        (build (example_environment\<lparr>AudioGlobal_getMMapPolicy := AAUDIO_POLICY_ALWAYS\<rparr>)
          (example_builder\<lparr>mPerformanceMode := AAUDIO_PERFORMANCE_MODE_NONE\<rparr>) (Some None)))
       = AAUDIO_SHARING_MODE_SHARED
   \<and> out_builder (build (example_environment\<lparr>AudioGlobal_getMMapPolicy := AAUDIO_POLICY_ALWAYS\<rparr>)
        (example_builder\<lparr>mPerformanceMode := AAUDIO_PERFORMANCE_MODE_NONE\<rparr>) (Some None))
       \<noteq> example_builder\<lparr>mPerformanceMode := AAUDIO_PERFORMANCE_MODE_NONE\<rparr>"
  by (simp add: eval_defs)

subsection \<open>The pre-check\<close>

text \<open>
  C9, with the order of the checks. \<^verbatim>\<open>validate\<close> returns the error of
  \<^verbatim>\<open>AAudioStreamParameters::validate()\<close> when that check fails; otherwise
  \<^verbatim>\<open>AAUDIO_ERROR_ILLEGAL_ARGUMENT\<close> when the performance mode is none of the three
  known values; otherwise \<^verbatim>\<open>AAUDIO_ERROR_OUT_OF_RANGE\<close> when frames-per-callback
  is specified and outside [1, 1048576]; otherwise \<^verbatim>\<open>AAUDIO_OK\<close>.
\<close>

theorem validate_checks_in_order:
  "(AAudioStreamParameters_validate env b \<noteq> AAUDIO_OK \<longrightarrow>
      validate env b = AAudioStreamParameters_validate env b)
   \<and> (AAudioStreamParameters_validate env b = AAUDIO_OK
       \<and> mPerformanceMode b \<noteq> AAUDIO_PERFORMANCE_MODE_NONE
       \<and> mPerformanceMode b \<noteq> AAUDIO_PERFORMANCE_MODE_POWER_SAVING
       \<and> mPerformanceMode b \<noteq> AAUDIO_PERFORMANCE_MODE_LOW_LATENCY \<longrightarrow>
      validate env b = AAUDIO_ERROR_ILLEGAL_ARGUMENT)
   \<and> (AAudioStreamParameters_validate env b = AAUDIO_OK
       \<and> (mPerformanceMode b = AAUDIO_PERFORMANCE_MODE_NONE
          \<or> mPerformanceMode b = AAUDIO_PERFORMANCE_MODE_POWER_SAVING
          \<or> mPerformanceMode b = AAUDIO_PERFORMANCE_MODE_LOW_LATENCY)
       \<and> mFramesPerDataCallback b \<noteq> AAUDIO_UNSPECIFIED
       \<and> (sint (mFramesPerDataCallback b) < 1 \<or> 1048576 < sint (mFramesPerDataCallback b)) \<longrightarrow>
      validate env b = AAUDIO_ERROR_OUT_OF_RANGE)
   \<and> (AAudioStreamParameters_validate env b = AAUDIO_OK
       \<and> (mPerformanceMode b = AAUDIO_PERFORMANCE_MODE_NONE
          \<or> mPerformanceMode b = AAUDIO_PERFORMANCE_MODE_POWER_SAVING
          \<or> mPerformanceMode b = AAUDIO_PERFORMANCE_MODE_LOW_LATENCY)
       \<and> (mFramesPerDataCallback b = AAUDIO_UNSPECIFIED
          \<or> (1 \<le> sint (mFramesPerDataCallback b) \<and> sint (mFramesPerDataCallback b) \<le> 1048576)) \<longrightarrow>
      validate env b = AAUDIO_OK)"
  by (auto simp add: validate_def Let_def FRAMES_PER_DATA_CALLBACK_MIN_def
      FRAMES_PER_DATA_CALLBACK_MAX_def)

text \<open>
  Each of the four cases at a concrete request, with both ends of the range.
\<close>

theorem validate_checks_in_order_witness:
  "validate (example_environment\<lparr>AAudioStreamParameters_validate := reject_parameters\<rparr>)
      (example_builder\<lparr>mPerformanceMode := 99\<rparr>) = AAUDIO_ERROR_OUT_OF_RANGE
   \<and> validate example_environment (example_builder\<lparr>mPerformanceMode := 99\<rparr>)
       = AAUDIO_ERROR_ILLEGAL_ARGUMENT
   \<and> validate example_environment (example_builder\<lparr>mFramesPerDataCallback := 1048577\<rparr>)
       = AAUDIO_ERROR_OUT_OF_RANGE
   \<and> validate example_environment (example_builder\<lparr>mFramesPerDataCallback := - 5\<rparr>)
       = AAUDIO_ERROR_OUT_OF_RANGE
   \<and> validate example_environment (example_builder\<lparr>mFramesPerDataCallback := 1048576\<rparr>)
       = AAUDIO_OK
   \<and> validate example_environment example_builder = AAUDIO_OK"
proof -
  let ?rej = "example_environment\<lparr>AAudioStreamParameters_validate := reject_parameters\<rparr>"
  let ?mode = "example_builder\<lparr>mPerformanceMode := 99\<rparr>"
  let ?big = "example_builder\<lparr>mFramesPerDataCallback := 1048577\<rparr>"
  let ?neg = "example_builder\<lparr>mFramesPerDataCallback := - 5\<rparr>"
  let ?max = "example_builder\<lparr>mFramesPerDataCallback := 1048576\<rparr>"
  have rej: "AAudioStreamParameters_validate ?rej ?mode = AAUDIO_ERROR_OUT_OF_RANGE"
    "AAUDIO_ERROR_OUT_OF_RANGE \<noteq> AAUDIO_OK"
    by (simp_all add: example_defs reject_parameters_def aaudio_consts)
  have ok: "AAudioStreamParameters_validate example_environment b = AAUDIO_OK" for b
    by (simp add: example_defs)
  have mode: "mPerformanceMode ?mode \<noteq> AAUDIO_PERFORMANCE_MODE_NONE"
    "mPerformanceMode ?mode \<noteq> AAUDIO_PERFORMANCE_MODE_POWER_SAVING"
    "mPerformanceMode ?mode \<noteq> AAUDIO_PERFORMANCE_MODE_LOW_LATENCY"
    by (simp_all add: aaudio_consts)
  have ll: "mPerformanceMode (example_builder\<lparr>mFramesPerDataCallback := n\<rparr>)
              = AAUDIO_PERFORMANCE_MODE_LOW_LATENCY" for n
    by (simp add: example_defs)
  have ll0: "mPerformanceMode example_builder = AAUDIO_PERFORMANCE_MODE_LOW_LATENCY"
    by (simp add: example_defs)
  have big: "mFramesPerDataCallback ?big \<noteq> AAUDIO_UNSPECIFIED"
    "1048576 < sint (mFramesPerDataCallback ?big)"
    by (simp_all add: aaudio_consts)
  have neg: "mFramesPerDataCallback ?neg \<noteq> AAUDIO_UNSPECIFIED"
    "sint (mFramesPerDataCallback ?neg) < 1"
    by (simp_all add: aaudio_consts)
  have max: "1 \<le> sint (mFramesPerDataCallback ?max)" "sint (mFramesPerDataCallback ?max) \<le> 1048576"
    by simp_all
  have unspec: "mFramesPerDataCallback example_builder = AAUDIO_UNSPECIFIED"
    by (simp add: example_defs)
  from rej validate_checks_in_order [of ?rej ?mode]
  have "validate ?rej ?mode = AAUDIO_ERROR_OUT_OF_RANGE" by simp
  moreover from ok mode validate_checks_in_order [of example_environment ?mode]
  have "validate example_environment ?mode = AAUDIO_ERROR_ILLEGAL_ARGUMENT" by simp
  moreover from ok ll big validate_checks_in_order [of example_environment ?big]
  have "validate example_environment ?big = AAUDIO_ERROR_OUT_OF_RANGE" by blast
  moreover from ok ll neg validate_checks_in_order [of example_environment ?neg]
  have "validate example_environment ?neg = AAUDIO_ERROR_OUT_OF_RANGE" by blast
  moreover from ok ll max validate_checks_in_order [of example_environment ?max]
  have "validate example_environment ?max = AAUDIO_OK" by blast
  moreover from ok ll0 unspec validate_checks_in_order [of example_environment example_builder]
  have "validate example_environment example_builder = AAUDIO_OK" by blast
  ultimately show ?thesis by blast
qed

text \<open>
  C9 as stated fails: a request with an unknown performance mode and a
  frames-per-callback of -5 gets \<^verbatim>\<open>AAUDIO_ERROR_ILLEGAL_ARGUMENT\<close>, not
  \<^verbatim>\<open>AAUDIO_ERROR_OUT_OF_RANGE\<close>; and a request with an unknown performance mode
  whose base-class check fails gets the error of that check.
\<close>

theorem validate_first_failure_counterexample:
  "mFramesPerDataCallback (example_builder\<lparr>mPerformanceMode := 99, mFramesPerDataCallback := - 5\<rparr>)
     \<noteq> AAUDIO_UNSPECIFIED
   \<and> sint (mFramesPerDataCallback
        (example_builder\<lparr>mPerformanceMode := 99, mFramesPerDataCallback := - 5\<rparr>)) < 1
   \<and> validate example_environment
        (example_builder\<lparr>mPerformanceMode := 99, mFramesPerDataCallback := - 5\<rparr>)
       = AAUDIO_ERROR_ILLEGAL_ARGUMENT
   \<and> AAUDIO_ERROR_ILLEGAL_ARGUMENT \<noteq> AAUDIO_ERROR_OUT_OF_RANGE
   \<and> validate (example_environment\<lparr>AAudioStreamParameters_validate := reject_parameters\<rparr>)
        (example_builder\<lparr>mPerformanceMode := 99\<rparr>)
       = AAUDIO_ERROR_OUT_OF_RANGE"
  by (simp add: eval_defs reject_parameters_def)

end
